theory Spec2Isabelle
  imports Main "HOL-Library.AList"
begin

section \<open>JavaScript values\<close>

text \<open>
  The payloads, argument maps and records of the plugin are untyped JavaScript data
  (\<^verbatim>\<open>Data\<close>, \<^verbatim>\<open>Arguments\<close>: \<^verbatim>\<open>{ [index: string]: any }\<close>).
  An object is the list of its own enumerable properties in insertion order, which is the
  order of \<^verbatim>\<open>Object.keys\<close>; a well-formed object has distinct keys, and a property
  is read by its first entry. Numbers are integers (the ids and counters the plugin
  handles); \<open>JNaN\<close> is the number \<^verbatim>\<open>NaN\<close>, which \<^verbatim>\<open>parseInt\<close> can return.
  Strings are strings of bytes, as in ASCII text. Fractions, the rounding of doubles
  beyond \<open>2 ^ 53\<close>, functions, prototype properties and the rule that lists keys
  that are array indices before the others are outside the model.
\<close>

datatype jsval =
    JUndefined
  | JNull
  | JBool bool
  | JNum int
  | JNaN
  | JStr string
  | JArr "jsval list"
  | JObj "(string \<times> jsval) list"

datatype error =
    TypeError
  | Error string
  | Rejected jsval

text \<open>\<^verbatim>\<open>if (v)\<close>: the values that count as true.\<close>

fun truthy :: "jsval \<Rightarrow> bool" where
  "truthy JUndefined = False"
| "truthy JNull = False"
| "truthy (JBool b) = b"
| "truthy (JNum n) = (n \<noteq> 0)"
| "truthy JNaN = False"
| "truthy (JStr s) = (s \<noteq> [])"
| "truthy (JArr xs) = True"
| "truthy (JObj kvs) = True"

fun typeof :: "jsval \<Rightarrow> string" where
  "typeof JUndefined = ''undefined''"
| "typeof JNull = ''object''"
| "typeof (JBool b) = ''boolean''"
| "typeof (JNum n) = ''number''"
| "typeof JNaN = ''number''"
| "typeof (JStr s) = ''string''"
| "typeof (JArr xs) = ''object''"
| "typeof (JObj kvs) = ''object''"

text \<open>\<^verbatim>\<open>v instanceof Array\<close> and \<^verbatim>\<open>v instanceof Object\<close>.\<close>

fun instanceof_Array :: "jsval \<Rightarrow> bool" where
  "instanceof_Array (JArr xs) = True"
| "instanceof_Array v = False"

fun instanceof_Object :: "jsval \<Rightarrow> bool" where
  "instanceof_Object (JArr xs) = True"
| "instanceof_Object (JObj kvs) = True"
| "instanceof_Object v = False"

subsection \<open>Numbers and strings\<close>

definition digit_char :: "nat \<Rightarrow> char" where
  "digit_char d = char_of (48 + d)"

fun digits_of_nat :: "nat \<Rightarrow> string" where
  "digits_of_nat n =
     (if n < 10 then [digit_char n] else digits_of_nat (n div 10) @ [digit_char (n mod 10)])"

declare digits_of_nat.simps [simp del]

text \<open>The decimal text of an integer, as a template literal prints a number.\<close>

definition Number_toString :: "int \<Rightarrow> string" where
  "Number_toString n =
     (if n < 0 then CHR ''-'' # digits_of_nat (nat (- n)) else digits_of_nat (nat n))"

fun join :: "string \<Rightarrow> string list \<Rightarrow> string" where
  "join sep [] = []"
| "join sep [x] = x"
| "join sep (x # y # ys) = x @ sep @ join sep (y # ys)"

text \<open>
  \<^verbatim>\<open>`${v}`\<close> and \<^verbatim>\<open>v + '...'\<close>: the string a value is converted to. An array
  prints its elements separated by commas, \<^verbatim>\<open>null\<close> and \<^verbatim>\<open>undefined\<close> elements
  as nothing.
\<close>

fun ToString :: "jsval \<Rightarrow> string" where
  "ToString JUndefined = ''undefined''"
| "ToString JNull = ''null''"
| "ToString (JBool b) = (if b then ''true'' else ''false'')"
| "ToString (JNum n) = Number_toString n"
| "ToString JNaN = ''NaN''"
| "ToString (JStr s) = s"
| "ToString (JArr xs) =
     join '','' (map (\<lambda>x. if x = JUndefined \<or> x = JNull then [] else ToString x) xs)"
| "ToString (JObj kvs) = ''[object Object]''"

subsection \<open>Properties\<close>

text \<open>
  The own enumerable properties of a value: an object's entries, an array's elements and
  a string's characters under their indices, nothing for the other primitives.
\<close>

fun own_properties :: "jsval \<Rightarrow> (string \<times> jsval) list" where
  "own_properties (JObj kvs) = kvs"
| "own_properties (JArr xs) = zip (map digits_of_nat [0..<length xs]) xs"
| "own_properties (JStr s) = zip (map digits_of_nat [0..<length s]) (map (\<lambda>c. JStr [c]) s)"
| "own_properties v = []"

definition Object_keys :: "jsval \<Rightarrow> string list" where
  "Object_keys v = map fst (own_properties v)"

text \<open>\<^verbatim>\<open>v[key]\<close> on a value that is neither \<^verbatim>\<open>null\<close> nor \<^verbatim>\<open>undefined\<close>.\<close>

definition get_prop :: "jsval \<Rightarrow> string \<Rightarrow> jsval" where
  "get_prop v key = (case map_of (own_properties v) key of None \<Rightarrow> JUndefined | Some x \<Rightarrow> x)"

text \<open>\<^verbatim>\<open>obj[key] = v\<close>: an existing property keeps its place, a new one goes last.\<close>

fun set_prop :: "(string \<times> jsval) list \<Rightarrow> string \<Rightarrow> jsval \<Rightarrow> (string \<times> jsval) list" where
  "set_prop [] key v = [(key, v)]"
| "set_prop ((k, x) # kvs) key v =
     (if k = key then (k, v) # kvs else (k, x) # set_prop kvs key v)"

subsection \<open>\<^verbatim>\<open>parseInt\<close>\<close>

text \<open>
  \<^verbatim>\<open>parseInt(v, 0)\<close>: the argument is converted to a string; leading white space, a
  sign and a \<^verbatim>\<open>0x\<close> prefix are read, then the longest run of digits of the radix (10,
  or 16 after the prefix). No digit gives \<^verbatim>\<open>NaN\<close>. White space is the ASCII white
  space.
\<close>

definition is_space :: "char \<Rightarrow> bool" where
  "is_space c = (c \<in> set [CHR 0x20, CHR 0x09, CHR 0x0A, CHR 0x0B, CHR 0x0C, CHR 0x0D])"

definition digit_value :: "nat \<Rightarrow> char \<Rightarrow> nat option" where
  "digit_value radix c =
     (let n = (of_char c :: nat);
          d = (if 48 \<le> n \<and> n \<le> 57 then n - 48
               else if 97 \<le> n \<and> n \<le> 122 then n - 87
               else if 65 \<le> n \<and> n \<le> 90 then n - 55
               else radix)
      in if d < radix then Some d else None)"

definition parseInt_string :: "string \<Rightarrow> jsval" where
  "parseInt_string input =
     (let s = dropWhile is_space input;
          negative = (take 1 s = ''-'');
          s1 = (if take 1 s = ''-'' \<or> take 1 s = ''+'' then drop 1 s else s);
          hex = (take 2 s1 = ''0x'' \<or> take 2 s1 = ''0X'');
          radix = (if hex then 16 else 10);
          s2 = (if hex then drop 2 s1 else s1);
          z = takeWhile (\<lambda>c. digit_value radix c \<noteq> None) s2;
          n = foldl (\<lambda>acc c. acc * radix + (case digit_value radix c of Some d \<Rightarrow> d | None \<Rightarrow> 0)) 0 z
      in if z = [] then JNaN else JNum (if negative then - int n else int n))"

definition parseInt :: "jsval \<Rightarrow> jsval" where
  "parseInt v = parseInt_string (ToString v)"

section \<open>The argument formatter (\<^verbatim>\<open>QueryBuilder.buildArguments\<close>)\<close>

text \<open>
  \<^verbatim>\<open>typeof value === 'object' && value.__type\<close>, as a condition. Reading a property of
  \<^verbatim>\<open>null\<close> throws a \<^verbatim>\<open>TypeError\<close>.
\<close>

definition has_type_tag :: "jsval \<Rightarrow> error + bool" where
  "has_type_tag v =
     (if typeof v = ''object''
      then (if v = JNull then Inl TypeError else Inr (truthy (get_prop v ''__type'')))
      else Inr False)"

text \<open>
  The \<^verbatim>\<open>typeOrValue\<close> of one argument. \<open>stringify\<close> is \<^verbatim>\<open>JSON.stringify\<close>, a
  builtin that is taken as a parameter.
\<close>

definition typeOrValue :: "(jsval \<Rightarrow> string) \<Rightarrow> bool \<Rightarrow> bool \<Rightarrow> string \<Rightarrow> jsval \<Rightarrow> error + string" where
  "typeOrValue stringify signature valuesAsVariables key v =
     (if signature then
        (case has_type_tag v of
           Inl e \<Rightarrow> Inl e
         | Inr True \<Rightarrow> Inr (ToString (get_prop v ''__type'') @ ''Input!'')
         | Inr False \<Rightarrow> Inr (if typeof v = ''number'' then ''Number!'' else ''String!''))
      else if valuesAsVariables then Inr (''$'' @ key)
      else
        (case has_type_tag v of
           Inl e \<Rightarrow> Inl e
         | Inr True \<Rightarrow> Inr (stringify v)
         | Inr False \<Rightarrow>
             Inr (if typeof v = ''number'' then ToString v
                  else [CHR 0x22] @ ToString v @ [CHR 0x22])))"

text \<open>
  The body of the \<^verbatim>\<open>forEach\<close> over \<^verbatim>\<open>Object.keys(args)\<close>: the state is
  \<^verbatim>\<open>returnValue\<close> and \<^verbatim>\<open>first\<close>; an exception ends the loop.
\<close>

fun buildArguments_loop ::
  "(jsval \<Rightarrow> string) \<Rightarrow> bool \<Rightarrow> bool \<Rightarrow> jsval \<Rightarrow> string list \<Rightarrow> string \<times> bool \<Rightarrow> error + string \<times> bool"
where
  "buildArguments_loop stringify signature valuesAsVariables args [] st = Inr st"
| "buildArguments_loop stringify signature valuesAsVariables args (key # keys) (returnValue, first) =
     (let v = get_prop args key in
      if \<not> (instanceof_Array v \<or> key = ''id'') then
        (case typeOrValue stringify signature valuesAsVariables key v of
           Inl e \<Rightarrow> Inl e
         | Inr tv \<Rightarrow>
             buildArguments_loop stringify signature valuesAsVariables args keys
               (returnValue @ (if first then [] else '', '')
                  @ ((if signature then ''$'' else []) @ key) @ '': '' @ tv,
                False))
      else buildArguments_loop stringify signature valuesAsVariables args keys (returnValue, first))"

text \<open>
  \<^verbatim>\<open>buildArguments(args, signature, valuesAsVariables)\<close>; \<open>None\<close> is an absent
  argument map (\<^verbatim>\<open>undefined\<close>).
\<close>

definition buildArguments ::
  "(jsval \<Rightarrow> string) \<Rightarrow> jsval option \<Rightarrow> bool \<Rightarrow> bool \<Rightarrow> error + string"
where
  "buildArguments stringify args signature valuesAsVariables =
     (case args of
        None \<Rightarrow> Inr []
      | Some a \<Rightarrow>
          (if truthy a then
             (case buildArguments_loop stringify signature valuesAsVariables a (Object_keys a) ([], True) of
                Inl e \<Rightarrow> Inl e
              | Inr (returnValue, first) \<Rightarrow>
                  Inr (if \<not> first then ''('' @ returnValue @ '')'' else returnValue))
           else Inr []))"

text \<open>
  The clause read as a list of entries, for stating what it contains: one pair of the
  argument's name and its rendered text per argument that is kept, in the order of the map.
\<close>

fun argument_entries ::
  "(jsval \<Rightarrow> string) \<Rightarrow> bool \<Rightarrow> bool \<Rightarrow> (string \<times> jsval) list \<Rightarrow> error + (string \<times> string) list"
where
  "argument_entries stringify signature valuesAsVariables [] = Inr []"
| "argument_entries stringify signature valuesAsVariables ((key, v) # ps) =
     (if instanceof_Array v \<or> key = ''id''
      then argument_entries stringify signature valuesAsVariables ps
      else
        (case typeOrValue stringify signature valuesAsVariables key v of
           Inl e \<Rightarrow> Inl e
         | Inr tv \<Rightarrow>
             (case argument_entries stringify signature valuesAsVariables ps of
                Inl e \<Rightarrow> Inl e
              | Inr es \<Rightarrow> Inr ((key, (if signature then ''$'' else []) @ key @ '': '' @ tv) # es))))"

definition clause_of :: "(string \<times> string) list \<Rightarrow> string" where
  "clause_of es = (if es = [] then [] else ''('' @ join '', '' (map snd es) @ '')'')"

section \<open>The data transformer (\<^verbatim>\<open>QueryBuilder.transformIncomingData\<close>)\<close>

text \<open>
  The inflection library's \<^verbatim>\<open>singularize\<close> and \<^verbatim>\<open>pluralize\<close> are parameters.
  The calls of the logger print to the console and are left out; they are all that
  \<^verbatim>\<open>recursiveCall\<close> decides. The function is the same in the older plugin class
  (\<^verbatim>\<open>VuexORMApollo.transformIncomingData\<close>), which has no logger.

  An array is mapped element by element. For anything else the loop runs over
  \<^verbatim>\<open>Object.keys(data)\<close>, which throws on \<^verbatim>\<open>null\<close> and \<^verbatim>\<open>undefined\<close>, is empty
  for a number or a boolean, and lists the indices of a string, whose one-character
  values are all copied. In an object, \<^verbatim>\<open>data[key]\<close> is the value stored under the key.
  The two lemmas before the function are what its termination needs: a property of an
  object or array is smaller than the object or array.
\<close>

lemma size_entry_less:
  "(k, x) \<in> set kvs \<Longrightarrow> size x < Suc (size_list (size_prod (\<lambda>_. 0) size) kvs)"
  by (induction kvs) auto

lemma size_element_less: "x \<in> set xs \<Longrightarrow> size x < Suc (size_list size xs)"
  by (induction xs) auto

lemma size_get_prop [termination_simp]:
  "instanceof_Object v \<Longrightarrow> truthy (get_prop v k) \<Longrightarrow> size (get_prop v k) < size v"
proof (cases v)
  case (JArr xs)
  assume "truthy (get_prop v k)"
  then obtain x where "map_of (zip (map digits_of_nat [0..<length xs]) xs) k = Some x"
    and x: "get_prop (JArr xs) k = x"
    by (auto simp: get_prop_def JArr split: option.splits)
  then have "x \<in> set xs"
    by (meson map_of_SomeD set_zip_rightD)
  then show ?thesis
    using size_element_less [of x xs] by (simp add: x JArr)
next
  case (JObj kvs)
  assume "truthy (get_prop v k)"
  then obtain x where "map_of kvs k = Some x" and x: "get_prop (JObj kvs) k = x"
    by (auto simp: get_prop_def JObj split: option.splits)
  then have "(k, x) \<in> set kvs"
    by (meson map_of_SomeD)
  then show ?thesis
    using size_entry_less [of k x kvs] by (simp add: x JObj)
qed simp_all

fun transformIncomingData :: "(string \<Rightarrow> string) \<Rightarrow> (string \<Rightarrow> string) \<Rightarrow> jsval \<Rightarrow> bool \<Rightarrow> error + jsval"
  and transformIncomingData_map :: "(string \<Rightarrow> string) \<Rightarrow> (string \<Rightarrow> string) \<Rightarrow> jsval list \<Rightarrow> error + jsval list"
  and transformIncomingData_loop ::
    "(string \<Rightarrow> string) \<Rightarrow> (string \<Rightarrow> string) \<Rightarrow> (string \<times> jsval) list \<Rightarrow> (string \<times> jsval) list
      \<Rightarrow> error + (string \<times> jsval) list"
where
  "transformIncomingData singularize pluralize (JArr xs) recursiveCall =
     (case transformIncomingData_map singularize pluralize xs of
        Inl e \<Rightarrow> Inl e | Inr ys \<Rightarrow> Inr (JArr ys))"
| "transformIncomingData singularize pluralize (JObj kvs) recursiveCall =
     (case transformIncomingData_loop singularize pluralize kvs [] of
        Inl e \<Rightarrow> Inl e | Inr result \<Rightarrow> Inr (JObj result))"
| "transformIncomingData singularize pluralize JUndefined recursiveCall = Inl TypeError"
| "transformIncomingData singularize pluralize JNull recursiveCall = Inl TypeError"
| "transformIncomingData singularize pluralize (JStr s) recursiveCall =
     Inr (JObj (own_properties (JStr s)))"
| "transformIncomingData singularize pluralize v recursiveCall = Inr (JObj [])"
| "transformIncomingData_map singularize pluralize [] = Inr []"
| "transformIncomingData_map singularize pluralize (d # ds) =
     (case transformIncomingData singularize pluralize d True of
        Inl e \<Rightarrow> Inl e
      | Inr y \<Rightarrow>
          (case transformIncomingData_map singularize pluralize ds of
             Inl e \<Rightarrow> Inl e | Inr ys \<Rightarrow> Inr (y # ys)))"
| "transformIncomingData_loop singularize pluralize [] result = Inr result"
| "transformIncomingData_loop singularize pluralize ((key, v) # rest) result =
     (if truthy v then
        (if instanceof_Object v then
           (if truthy (get_prop v ''nodes'') then
              (case transformIncomingData singularize pluralize (get_prop v ''nodes'') True of
                 Inl e \<Rightarrow> Inl e
               | Inr t \<Rightarrow>
                   transformIncomingData_loop singularize pluralize rest
                     (set_prop result (pluralize key) t))
            else
              (case transformIncomingData singularize pluralize v True of
                 Inl e \<Rightarrow> Inl e
               | Inr t \<Rightarrow>
                   transformIncomingData_loop singularize pluralize rest
                     (set_prop result (singularize key) t)))
         else if key = ''id'' then
           transformIncomingData_loop singularize pluralize rest (set_prop result key (parseInt v))
         else transformIncomingData_loop singularize pluralize rest (set_prop result key v))
      else transformIncomingData_loop singularize pluralize rest result)"

section \<open>The model descriptor (class \<^verbatim>\<open>Model\<close>)\<close>

text \<open>
  A field of a store model is known to the plugin by the name of its class
  (\<^verbatim>\<open>field.constructor.name\<close>: \<^verbatim>\<open>Attr\<close>, \<^verbatim>\<open>BelongsTo\<close>, \<^verbatim>\<open>HasMany\<close>, ...);
  \<open>related\<close> is the entity a relation points to, which the plugin never reads. A store
  model (\<^verbatim>\<open>ORMModel\<close>) has its entity name and the object \<^verbatim>\<open>fields()\<close> returns.
  \<^verbatim>\<open>Model\<close> wraps it; its \<^verbatim>\<open>fields\<close> map, a \<^verbatim>\<open>Map\<close> in insertion order, is
  \<open>model_fields\<close>. \<open>AList.update\<close> is \<^verbatim>\<open>Map.set\<close>: an existing key keeps its place,
  a new one goes last.
\<close>

record Field =
  constructor_name :: string
  related :: string

record ORMModel =
  entity :: string
  orm_fields :: "(string \<times> Field) list"

record Model =
  singularName :: string
  pluralName :: string
  baseModel :: ORMModel
  model_fields :: "(string \<times> Field) list"

text \<open>The constructor: the names by inflection, the fields copied key by key.\<close>

definition new_Model :: "(string \<Rightarrow> string) \<Rightarrow> (string \<Rightarrow> string) \<Rightarrow> ORMModel \<Rightarrow> Model" where
  "new_Model singularize pluralize base =
     \<lparr> singularName = singularize (entity base),
       pluralName = pluralize (entity base),
       baseModel = base,
       model_fields = fold (\<lambda>(name, f) m. AList.update name f m) (orm_fields base) [] \<rparr>"

text \<open>\<^verbatim>\<open>s.endsWith(suffix)\<close>.\<close>

definition endsWith :: "string \<Rightarrow> string \<Rightarrow> bool" where
  "endsWith s suffix =
     (length suffix \<le> length s \<and> drop (length s - length suffix) s = suffix)"

text \<open>\<^verbatim>\<open>getQueryFields\<close>: a \<^verbatim>\<open>forEach\<close> over the map that pushes the names kept.\<close>

definition getQueryFields :: "Model \<Rightarrow> string list" where
  "getQueryFields model =
     fold (\<lambda>(name, field) fs.
             if constructor_name field = ''Attr'' \<and> \<not> endsWith name ''Id''
             then fs @ [name] else fs)
          (model_fields model) []"

text \<open>\<^verbatim>\<open>getRelations\<close>: a new map of the fields that are not \<^verbatim>\<open>Attr\<close>.\<close>

definition getRelations :: "Model \<Rightarrow> (string \<times> Field) list" where
  "getRelations model =
     fold (\<lambda>(name, field) relations.
             if constructor_name field \<noteq> ''Attr''
             then AList.update name field relations else relations)
          (model_fields model) []"

section \<open>The model registry (class \<^verbatim>\<open>VuexORMApollo\<close>)\<close>

text \<open>
  \<^verbatim>\<open>collectModels\<close> fills the map \<^verbatim>\<open>models\<close>, keyed by singular name.
  \<^verbatim>\<open>getModel\<close> returns a \<^verbatim>\<open>Model\<close> as it is and looks a name up after singularizing
  it; the message of its error is built from the variable the failed lookup has just
  overwritten, hence \<^verbatim>\<open>undefined\<close>.
\<close>

definition collectModels ::
  "(string \<Rightarrow> string) \<Rightarrow> (string \<Rightarrow> string) \<Rightarrow> ORMModel list \<Rightarrow> (string \<times> Model) list" where
  "collectModels singularize pluralize entities =
     fold (\<lambda>e models. let model = new_Model singularize pluralize e
                       in AList.update (singularName model) model models)
          entities []"

definition VuexORMApollo_getModel ::
  "(string \<Rightarrow> string) \<Rightarrow> (string \<times> Model) list \<Rightarrow> Model + string \<Rightarrow> error + Model" where
  "VuexORMApollo_getModel singularize models m =
     (case m of
        Inl model \<Rightarrow> Inr model
      | Inr name \<Rightarrow>
          (case map_of models (singularize name) of
             None \<Rightarrow> Inl (Error ''No such model undefined!'')
           | Some model \<Rightarrow> Inr model))"

section \<open>The query builder (class \<^verbatim>\<open>QueryBuilder\<close>)\<close>

subsection \<open>Selections and their text\<close>

text \<open>
  \<^verbatim>\<open>buildField\<close> fills a template literal. The embedding keeps what the template is
  filled with as a \<open>selection\<close>: the field's name, its argument clause, whether the body
  is wrapped in \<^verbatim>\<open>nodes { ... }\<close>, the scalar field names and the selections of the
  relations. \<open>print_selection\<close> is the template, character by character; the array of
  relation queries is printed as JavaScript prints an array in a template, joined by commas.
\<close>

datatype selection =
  Selection (sel_name: string) (sel_params: string) (sel_multiple: bool)
    (sel_fields: "string list") (sel_relations: "selection list")

definition nl :: string where "nl = [CHR 0x0A]"
definition sp :: "nat \<Rightarrow> string" where "sp n = replicate n (CHR '' '')"

fun print_selection :: "selection \<Rightarrow> string" where
  "print_selection (Selection name params multiple qf rels) =
     (let fields = nl @ sp 6 @ join '' '' qf @ nl @ sp 6
                     @ join '','' (map print_selection rels) @ nl @ sp 4
      in if multiple
         then nl @ sp 8 @ name @ params @ '' {'' @ nl @ sp 10 @ ''nodes {'' @ nl
                @ sp 12 @ fields @ nl @ sp 10 @ ''}'' @ nl @ sp 8 @ ''}'' @ nl @ sp 6
         else nl @ sp 8 @ name @ params @ '' {'' @ nl @ sp 10 @ fields @ nl
                @ sp 8 @ ''}'' @ nl @ sp 6)"

subsection \<open>Building a field\<close>

text \<open>
  \<^verbatim>\<open>buildField\<close> and \<^verbatim>\<open>buildRelationsQuery\<close> call each other, and nothing in the
  source bounds the depth: the functions take fuel, one unit per call of
  \<^verbatim>\<open>buildField\<close>, and \<open>OutOfFuel\<close> is the call that has not returned within it.
  \<open>Raise\<close> is an exception, \<open>Return\<close> a result. \<open>getModel\<close> is the function the
  constructor of \<^verbatim>\<open>QueryBuilder\<close> receives. A relation is skipped when a root model is
  given and the relation's name is the root's singular or plural name; the model of a
  relation is looked up by the relation's name; every relation that is not a
  \<^verbatim>\<open>BelongsTo\<close> is queried as a list.
\<close>

datatype 'a result = OutOfFuel | Raise error | Return 'a

fun buildField ::
    "nat \<Rightarrow> (Model + string \<Rightarrow> error + Model) \<Rightarrow> (jsval \<Rightarrow> string) \<Rightarrow> Model + string \<Rightarrow> bool
      \<Rightarrow> jsval option \<Rightarrow> bool \<Rightarrow> Model option \<Rightarrow> string option \<Rightarrow> selection result"
  and buildRelationsQuery ::
    "nat \<Rightarrow> (Model + string \<Rightarrow> error + Model) \<Rightarrow> (jsval \<Rightarrow> string) \<Rightarrow> Model \<Rightarrow> Model option
      \<Rightarrow> selection list result"
  and buildRelationsQuery_loop ::
    "nat \<Rightarrow> (Model + string \<Rightarrow> error + Model) \<Rightarrow> (jsval \<Rightarrow> string) \<Rightarrow> Model \<Rightarrow> Model option
      \<Rightarrow> (string \<times> Field) list \<Rightarrow> selection list result"
where
  "buildField 0 getModel stringify m multiple args withVars rootModel name = OutOfFuel"
| "buildField (Suc fuel) getModel stringify m multiple args withVars rootModel name =
     (case getModel m of
        Inl e \<Rightarrow> Raise e
      | Inr model \<Rightarrow>
          (case buildArguments stringify args False withVars of
             Inl e \<Rightarrow> Raise e
           | Inr params \<Rightarrow>
               (case buildRelationsQuery fuel getModel stringify model rootModel of
                  OutOfFuel \<Rightarrow> OutOfFuel
                | Raise e \<Rightarrow> Raise e
                | Return relationQueries \<Rightarrow>
                    Return (Selection
                      (case name of
                         None \<Rightarrow> if multiple then pluralName model else singularName model
                       | Some n \<Rightarrow>
                           if n \<noteq> [] then n
                           else if multiple then pluralName model else singularName model)
                      params multiple (getQueryFields model) relationQueries))))"
| "buildRelationsQuery fuel getModel stringify model rootModel =
     buildRelationsQuery_loop fuel getModel stringify model rootModel (getRelations model)"
| "buildRelationsQuery_loop fuel getModel stringify model rootModel [] = Return []"
| "buildRelationsQuery_loop fuel getModel stringify model rootModel ((name, field) # rest) =
     (if (case rootModel of
            None \<Rightarrow> True
          | Some root \<Rightarrow> name \<noteq> singularName root \<and> name \<noteq> pluralName root)
      then
        (case buildField fuel getModel stringify (Inr name)
                (constructor_name field \<noteq> ''BelongsTo'') None False
                (Some (case rootModel of None \<Rightarrow> model | Some root \<Rightarrow> root)) None of
           OutOfFuel \<Rightarrow> OutOfFuel
         | Raise e \<Rightarrow> Raise e
         | Return q \<Rightarrow>
             (case buildRelationsQuery_loop fuel getModel stringify model rootModel rest of
                OutOfFuel \<Rightarrow> OutOfFuel
              | Raise e \<Rightarrow> Raise e
              | Return qs \<Rightarrow> Return (q # qs)))
      else buildRelationsQuery_loop fuel getModel stringify model rootModel rest)"

subsection \<open>Building a query\<close>

text \<open>
  \<^verbatim>\<open>buildQuery\<close>: \<^verbatim>\<open>multiple = !(args && args.get('id'))\<close>, then the field between
  braces, handed to \<^verbatim>\<open>gql\<close>. The parser \<^verbatim>\<open>gql\<close> of graphql-tag is a parameter; it
  throws on text it cannot parse. The declaration of \<^verbatim>\<open>Arguments\<close> (\<^verbatim>\<open>./interfaces\<close>) is
  not among the sources, so the method call \<^verbatim>\<open>args.get(key)\<close> is a parameter \<open>args_get\<close>
  that returns a value or throws.
\<close>

definition buildQuery ::
  "nat \<Rightarrow> (Model + string \<Rightarrow> error + Model) \<Rightarrow> (jsval \<Rightarrow> string) \<Rightarrow> (string \<Rightarrow> error + 'd)
    \<Rightarrow> (jsval \<Rightarrow> string \<Rightarrow> error + jsval) \<Rightarrow> string \<Rightarrow> jsval option \<Rightarrow> 'd result"
where
  "buildQuery fuel getModel stringify gql args_get modelName args =
     (case (case args of
              None \<Rightarrow> Inr True
            | Some a \<Rightarrow>
                if truthy a
                then (case args_get a ''id'' of Inl e \<Rightarrow> Inl e | Inr v \<Rightarrow> Inr (\<not> truthy v))
                else Inr True) of
        Inl e \<Rightarrow> Raise e
      | Inr multiple \<Rightarrow>
          (case buildField fuel getModel stringify (Inr modelName) multiple args False None None of
             OutOfFuel \<Rightarrow> OutOfFuel
           | Raise e \<Rightarrow> Raise e
           | Return field \<Rightarrow>
               (case gql (''{ '' @ print_selection field @ '' }'') of
                  Inl e \<Rightarrow> Raise e
                | Inr doc \<Rightarrow> Return doc)))"

text \<open>
  The arguments the plugin passes are plain objects: \<^verbatim>\<open>buildArguments\<close> reads them with
  \<^verbatim>\<open>Object.keys\<close> and \<^verbatim>\<open>args[key]\<close>, and the actions are dispatched with filters such
  as \<^verbatim>\<open>{ id: 1 }\<close>. Plain data has no method \<^verbatim>\<open>get\<close>: the property is absent, or it
  is a value that is not a function, and the call throws a \<^verbatim>\<open>TypeError\<close>. This is the
  accessor the program has.
\<close>

definition plain_object_get :: "jsval \<Rightarrow> string \<Rightarrow> error + jsval" where
  "plain_object_get a key = Inl TypeError"

subsection \<open>Outgoing data\<close>

text \<open>
  A record of the store: the entity of its model (\<^verbatim>\<open>data.$self().entity\<close>) and its own
  properties. \<^verbatim>\<open>transformOutgoingData\<close> copies the properties that are neither a key of
  the model's relations nor \<^verbatim>\<open>id\<close>.
\<close>

record store_record =
  self_entity :: string
  props :: "(string \<times> jsval) list"

definition transformOutgoingData :: "(Model + string \<Rightarrow> error + Model) \<Rightarrow> store_record \<Rightarrow> error + jsval" where
  "transformOutgoingData getModel data =
     (case getModel (Inr (self_entity data)) of
        Inl e \<Rightarrow> Inl e
      | Inr model \<Rightarrow>
          (let relations = getRelations model in
           Inr (JObj (fold (\<lambda>key returnValue.
                              let v = get_prop (JObj (props data)) key in
                              if map_of relations key = None \<and> key \<noteq> ''id''
                              then set_prop returnValue key v else returnValue)
                           (Object_keys (JObj (props data))) []))))"

section \<open>The plugin's actions (class \<^verbatim>\<open>VuexORMApollo\<close>)\<close>

text \<open>
  The actions are asynchronous functions that await one step after the other, so each is
  a function from the state of the world to an outcome and a new state. A rejected promise
  that is awaited is an exception of the awaiting function. The world is the store and the
  list of the requests handed to the Apollo client so far, oldest first.

  What the plugin is given or calls from elsewhere is collected in one record: the
  inflection library, \<^verbatim>\<open>JSON.stringify\<close>, \<^verbatim>\<open>gql\<close>, the accessor of the arguments, the
  transport (\<open>transport\<close>: the response to a request, or the error the client rejects with),
  the store's \<^verbatim>\<open>dispatch\<close> and its getter \<^verbatim>\<open>find\<close>. \<^verbatim>\<open>QueryBuilder.buildMutation\<close>
  is called by \<^verbatim>\<open>mutate\<close> but is not defined in the sources; it is a parameter too.
\<close>

datatype request_kind = Query | Mutation

record 'd request =
  req_kind :: request_kind
  req_document :: 'd
  req_variables :: "jsval option"

record ('s, 'd) world =
  store :: 's
  sent :: "'d request list"

record ('s, 'd) collaborators =
  inflection_singularize :: "string \<Rightarrow> string"
  inflection_pluralize :: "string \<Rightarrow> string"
  JSON_stringify :: "jsval \<Rightarrow> string"
  graphql_tag :: "string \<Rightarrow> error + 'd"
  arguments_get :: "jsval \<Rightarrow> string \<Rightarrow> error + jsval"
  queryBuilder_buildMutation :: "Model \<Rightarrow> jsval \<Rightarrow> string \<Rightarrow> error + 'd"
  transport :: "'d request \<Rightarrow> error + jsval"
  store_dispatch :: "string \<Rightarrow> jsval \<Rightarrow> 's \<Rightarrow> (error + jsval) \<times> 's"
  getters_find :: "'s \<Rightarrow> Model \<Rightarrow> jsval \<Rightarrow> store_record option"

text \<open>\<^verbatim>\<open>v.key\<close>, which throws on \<^verbatim>\<open>null\<close> and \<^verbatim>\<open>undefined\<close>.\<close>

definition read_prop :: "jsval \<Rightarrow> string \<Rightarrow> error + jsval" where
  "read_prop v key = (if v = JUndefined \<or> v = JNull then Inl TypeError else Inr (get_prop v key))"

text \<open>\<^verbatim>\<open>apolloClient.query\<close> and \<^verbatim>\<open>apolloClient.mutate\<close>: the request is recorded and answered.\<close>

definition apolloClient_send ::
  "('s, 'd) collaborators \<Rightarrow> 'd request \<Rightarrow> ('s, 'd) world \<Rightarrow> (error + jsval) \<times> ('s, 'd) world" where
  "apolloClient_send x req w = (transport x req, w\<lparr>sent := sent w @ [req]\<rparr>)"

definition apolloRequest ::
  "('s, 'd) collaborators \<Rightarrow> 'd \<Rightarrow> ('s, 'd) world \<Rightarrow> (error + jsval) \<times> ('s, 'd) world" where
  "apolloRequest x query w =
     (case apolloClient_send x \<lparr>req_kind = Query, req_document = query, req_variables = None\<rparr> w of
        (Inl e, w') \<Rightarrow> (Inl e, w')
      | (Inr response, w') \<Rightarrow>
          (case read_prop response ''data'' of
             Inl e \<Rightarrow> (Inl e, w')
           | Inr d \<Rightarrow> (transformIncomingData (inflection_singularize x) (inflection_pluralize x) d False, w')))"

text \<open>
  \<^verbatim>\<open>insertData\<close>: one \<^verbatim>\<open>dispatch('insertOrUpdate', ...)\<close> per key. The callbacks are
  asynchronous functions whose promises \<^verbatim>\<open>forEach\<close> drops, so a failing dispatch is not
  reported.
\<close>

definition insertData :: "('s, 'd) collaborators \<Rightarrow> jsval \<Rightarrow> 's \<Rightarrow> 's" where
  "insertData x data s =
     fold (\<lambda>key s. snd (store_dispatch x ''insertOrUpdate'' (JObj [(''data'', get_prop data key)]) s))
          (Object_keys data) s"

definition fetch ::
  "nat \<Rightarrow> ('s, 'd) collaborators \<Rightarrow> (string \<times> Model) list \<Rightarrow> string \<Rightarrow> jsval option
    \<Rightarrow> ('s, 'd) world \<Rightarrow> unit result \<times> ('s, 'd) world" where
  "fetch fuel x models name filterArg w =
     (case buildQuery fuel (VuexORMApollo_getModel (inflection_singularize x) models) (JSON_stringify x)
             (graphql_tag x) (arguments_get x) name filterArg of
        OutOfFuel \<Rightarrow> (OutOfFuel, w)
      | Raise e \<Rightarrow> (Raise e, w)
      | Return query \<Rightarrow>
          (case apolloRequest x query w of
             (Inl e, w') \<Rightarrow> (Raise e, w')
           | (Inr data, w') \<Rightarrow> (Return (), w'\<lparr>store := insertData x data (store w')\<rparr>)))"

text \<open>
  \<^verbatim>\<open>updateData\<close>: \<^verbatim>\<open>data[Object.keys(data)[0]]\<close>, then its element \<^verbatim>\<open>0\<close> if it is an
  array, then one \<^verbatim>\<open>dispatch('update', { where: id, data })\<close>. Without a key the index
  is \<^verbatim>\<open>undefined\<close>, read as the property of that name.
\<close>

definition updateData ::
  "('s, 'd) collaborators \<Rightarrow> jsval \<Rightarrow> jsval \<Rightarrow> 's \<Rightarrow> (error + jsval) \<times> 's" where
  "updateData x data id' s =
     (let data1 = (case Object_keys data of
                     [] \<Rightarrow> get_prop data ''undefined''
                   | key # keys \<Rightarrow> get_prop data key);
          data2 = (if instanceof_Array data1 then get_prop data1 ''0'' else data1)
      in store_dispatch x ''update'' (JObj [(''where'', id'), (''data'', data2)]) s)"

text \<open>
  For stating what \<^verbatim>\<open>updateData\<close> keeps of a transformed response: the value of its first
  property or, if that value is an array, the first element of the array;
  \<^verbatim>\<open>undefined\<close> where there is none.
\<close>

definition first_record :: "jsval \<Rightarrow> jsval" where
  "first_record newData =
     (case own_properties newData of
        [] \<Rightarrow> JUndefined
      | (key, v) # rest \<Rightarrow>
          (case v of
             JArr [] \<Rightarrow> JUndefined
           | JArr (first # others) \<Rightarrow> first
           | _ \<Rightarrow> v))"

text \<open>\<^verbatim>\<open>mutate\<close>, the logic of \<^verbatim>\<open>persist\<close> and \<^verbatim>\<open>push\<close>; then the two actions.\<close>

definition mutate ::
  "('s, 'd) collaborators \<Rightarrow> (string \<times> Model) list \<Rightarrow> string \<Rightarrow> store_record option \<Rightarrow> Model
    \<Rightarrow> ('s, 'd) world \<Rightarrow> (error + jsval) \<times> ('s, 'd) world" where
  "mutate x models action data model w =
     (case data of
        None \<Rightarrow> (Inr JUndefined, w)
      | Some d \<Rightarrow>
          (let id' = (if action = ''create'' then JUndefined else get_prop (JObj (props d)) ''id'') in
           case queryBuilder_buildMutation x model id' action of
             Inl e \<Rightarrow> (Inl e, w)
           | Inr query \<Rightarrow>
               (case transformOutgoingData (VuexORMApollo_getModel (inflection_singularize x) models) d of
                  Inl e \<Rightarrow> (Inl e, w)
                | Inr out \<Rightarrow>
                    (let variables = (if truthy id'
                                      then set_prop [(singularName model, out)] ''id'' id'
                                      else [(singularName model, out)])
                     in case apolloClient_send x
                               \<lparr>req_kind = Mutation, req_document = query,
                                req_variables = Some (JObj variables)\<rparr> w of
                          (Inl e, w') \<Rightarrow> (Inl e, w')
                        | (Inr response, w') \<Rightarrow>
                            (case read_prop response ''data'' of
                               Inl e \<Rightarrow> (Inl e, w')
                             | Inr rd \<Rightarrow>
                                 (case transformIncomingData (inflection_singularize x) (inflection_pluralize x) rd True of
                                    Inl e \<Rightarrow> (Inl e, w')
                                  | Inr newData \<Rightarrow>
                                      (case updateData x newData (get_prop (JObj (props d)) ''id'')
                                              (store w') of
                                         (r, s) \<Rightarrow> (r, w'\<lparr>store := s\<rparr>))))))))"

definition persist ::
  "('s, 'd) collaborators \<Rightarrow> (string \<times> Model) list \<Rightarrow> string \<Rightarrow> jsval
    \<Rightarrow> ('s, 'd) world \<Rightarrow> (error + store_record option) \<times> ('s, 'd) world" where
  "persist x models name id' w =
     (case VuexORMApollo_getModel (inflection_singularize x) models (Inr name) of
        Inl e \<Rightarrow> (Inl e, w)
      | Inr model \<Rightarrow>
          (case mutate x models ''create'' (getters_find x (store w) model id') model w of
             (Inl e, w') \<Rightarrow> (Inl e, w')
           | (Inr r, w') \<Rightarrow> (Inr (getters_find x (store w') model id'), w')))"

definition push ::
  "('s, 'd) collaborators \<Rightarrow> (string \<times> Model) list \<Rightarrow> string \<Rightarrow> store_record option
    \<Rightarrow> ('s, 'd) world \<Rightarrow> (error + jsval) \<times> ('s, 'd) world" where
  "push x models name data w =
     (case VuexORMApollo_getModel (inflection_singularize x) models (Inr name) of
        Inl e \<Rightarrow> (Inl e, w)
      | Inr model \<Rightarrow> mutate x models ''update'' data model w)"

section \<open>Example models\<close>

text \<open>
  A stand-in for the inflection library on regular nouns: the plural adds an \<^verbatim>\<open>s\<close>
  unless there is one, the singular drops it. On the names used below (\<^verbatim>\<open>user\<close>,
  \<^verbatim>\<open>post\<close>, \<^verbatim>\<open>comment\<close>, \<^verbatim>\<open>tag\<close> and their plurals) it agrees with the library.
\<close>

definition simple_singularize :: "string \<Rightarrow> string" where
  "simple_singularize s = (if s \<noteq> [] \<and> last s = CHR ''s'' then butlast s else s)"

definition simple_pluralize :: "string \<Rightarrow> string" where
  "simple_pluralize s = (if s \<noteq> [] \<and> last s = CHR ''s'' then s else s @ ''s'')"

text \<open>
  The models of the older integration test (\<^verbatim>\<open>VuexORMApollo.spec.js\<close>): users have
  many posts, a post belongs to its user.
\<close>

definition attr :: Field where
  "attr = \<lparr>constructor_name = ''Attr'', related = []\<rparr>"

definition hasMany :: "string \<Rightarrow> Field" where
  "hasMany e = \<lparr>constructor_name = ''HasMany'', related = e\<rparr>"

definition belongsTo :: "string \<Rightarrow> Field" where
  "belongsTo e = \<lparr>constructor_name = ''BelongsTo'', related = e\<rparr>"

definition User :: ORMModel where
  "User = \<lparr>entity = ''users'',
            orm_fields = [(''id'', attr), (''name'', attr), (''posts'', hasMany ''posts'')]\<rparr>"

definition Post :: ORMModel where
  "Post = \<lparr>entity = ''posts'',
            orm_fields = [(''id'', attr), (''title'', attr), (''content'', attr),
                          (''userId'', attr), (''user'', belongsTo ''users'')]\<rparr>"

definition test_models :: "(string \<times> Model) list" where
  "test_models = collectModels simple_singularize simple_pluralize [User, Post]"

definition test_getModel :: "Model + string \<Rightarrow> error + Model" where
  "test_getModel = VuexORMApollo_getModel simple_singularize test_models"

text \<open>A record of the store: the user 1 with a new name and no posts.\<close>

definition snoopy :: store_record where
  "snoopy = \<lparr>self_entity = ''users'',
             props = [(''id'', JNum 1), (''name'', JStr ''Snoopy''), (''posts'', JArr [])]\<rparr>"

text \<open>The two registered models, written out.\<close>

definition UserModel :: Model where
  "UserModel = \<lparr>singularName = ''user'', pluralName = ''users'', baseModel = User,
                 model_fields = orm_fields User\<rparr>"

definition PostModel :: Model where
  "PostModel = \<lparr>singularName = ''post'', pluralName = ''posts'', baseModel = Post,
                 model_fields = orm_fields Post\<rparr>"

text \<open>
  A variant without a cycle away from the root: posts also have tags, and tags have no
  relation.
\<close>

definition TaggedPost :: ORMModel where
  "TaggedPost = \<lparr>entity = ''posts'',
                  orm_fields = [(''id'', attr), (''title'', attr), (''userId'', attr),
                                (''user'', belongsTo ''users''), (''tags'', hasMany ''tags'')]\<rparr>"

definition Tag :: ORMModel where
  "Tag = \<lparr>entity = ''tags'', orm_fields = [(''id'', attr), (''label'', attr)]\<rparr>"

definition TaggedPostModel :: Model where
  "TaggedPostModel = \<lparr>singularName = ''post'', pluralName = ''posts'', baseModel = TaggedPost,
                       model_fields = orm_fields TaggedPost\<rparr>"

definition TagModel :: Model where
  "TagModel = \<lparr>singularName = ''tag'', pluralName = ''tags'', baseModel = Tag,
                model_fields = orm_fields Tag\<rparr>"

definition tagged_getModel :: "Model + string \<Rightarrow> error + Model" where
  "tagged_getModel =
     VuexORMApollo_getModel simple_singularize
       (collectModels simple_singularize simple_pluralize [User, TaggedPost, Tag])"

text \<open>
  The models of the newer integration test: users with posts and comments, posts with
  their user and comments, comments with their user and post. The ids are plain
  attributes here, as in the older test.
\<close>

definition ForumUser :: ORMModel where
  "ForumUser = \<lparr>entity = ''users'',
                 orm_fields = [(''id'', attr), (''name'', attr), (''posts'', hasMany ''posts''),
                               (''comments'', hasMany ''comments'')]\<rparr>"

definition ForumPost :: ORMModel where
  "ForumPost = \<lparr>entity = ''posts'',
                 orm_fields = [(''id'', attr), (''content'', attr), (''title'', attr),
                               (''userId'', attr), (''otherId'', attr),
                               (''user'', belongsTo ''users''),
                               (''comments'', hasMany ''comments'')]\<rparr>"

definition ForumComment :: ORMModel where
  "ForumComment = \<lparr>entity = ''comments'',
                    orm_fields = [(''id'', attr), (''content'', attr), (''userId'', attr),
                                  (''postId'', attr), (''user'', belongsTo ''users''),
                                  (''post'', belongsTo ''posts'')]\<rparr>"

definition forum_models :: "(string \<times> Model) list" where
  "forum_models =
     collectModels simple_singularize simple_pluralize [ForumUser, ForumPost, ForumComment]"

definition forum_getModel :: "Model + string \<Rightarrow> error + Model" where
  "forum_getModel = VuexORMApollo_getModel simple_singularize forum_models"

text \<open>The three registered models, written out.\<close>

definition ForumUserModel :: Model where
  "ForumUserModel = \<lparr>singularName = ''user'', pluralName = ''users'', baseModel = ForumUser,
                      model_fields = orm_fields ForumUser\<rparr>"

definition ForumPostModel :: Model where
  "ForumPostModel = \<lparr>singularName = ''post'', pluralName = ''posts'', baseModel = ForumPost,
                      model_fields = orm_fields ForumPost\<rparr>"

definition ForumCommentModel :: Model where
  "ForumCommentModel = \<lparr>singularName = ''comment'', pluralName = ''comments'',
                         baseModel = ForumComment, model_fields = orm_fields ForumComment\<rparr>"

text \<open>
  Collaborators for running the actions on examples: the stand-in inflector, a parser that
  keeps the text as the document, the accessor of plain objects, a mutation builder that
  returns a fixed text, a store that is the list of the actions dispatched to it and that
  finds the record above under the id 1, and the transport given.
\<close>

definition example_collaborators ::
  "(string request \<Rightarrow> error + jsval) \<Rightarrow> ((string \<times> jsval) list, string) collaborators" where
  "example_collaborators srv =
     \<lparr> inflection_singularize = simple_singularize,
       inflection_pluralize = simple_pluralize,
       JSON_stringify = (\<lambda>v. []),
       graphql_tag = Inr,
       arguments_get = plain_object_get,
       queryBuilder_buildMutation = (\<lambda>model id' action. Inr (action @ '' '' @ singularName model)),
       transport = srv,
       store_dispatch = (\<lambda>action payload s. (Inr JUndefined, s @ [(action, payload)])),
       getters_find = (\<lambda>s model id'. if id' = JNum 1 then Some snoopy else None) \<rparr>"

text \<open>
  A transport failure, the requests that \<^verbatim>\<open>push\<close> and \<^verbatim>\<open>persist\<close> send for the
  record above, and a response with two records under its first field and a second field.
\<close>

definition network_error :: error where
  "network_error = Rejected (JStr ''Network error'')"

definition update_snoopy :: "string request" where
  "update_snoopy =
     \<lparr>req_kind = Mutation, req_document = ''update user'',
      req_variables = Some (JObj [(''user'', JObj [(''name'', JStr ''Snoopy'')]), (''id'', JNum 1)])\<rparr>"

definition create_snoopy :: "string request" where
  "create_snoopy =
     \<lparr>req_kind = Mutation, req_document = ''create user'',
      req_variables = Some (JObj [(''user'', JObj [(''name'', JStr ''Snoopy'')])])\<rparr>"

definition two_users_response :: jsval where
  "two_users_response =
     JObj [(''data'',
            JObj [(''updateUsers'',
                   JObj [(''nodes'', JArr [JObj [(''id'', JStr ''1''), (''name'', JStr ''Snoopy'')],
                                           JObj [(''id'', JStr ''2''), (''name'', JStr ''Woodstock'')]])]),
                  (''viewer'', JObj [(''name'', JStr ''Lucy'')])])]"

section \<open>Properties of the argument formatter\<close>

text \<open>
  C3: on the single-entry map \<^verbatim>\<open>{name: "Charlie Brown"}\<close> the formatter returns
  \<^verbatim>\<open>($name: String!)\<close> as a signature, \<^verbatim>\<open>(name: "Charlie Brown")\<close> with neither
  flag set, and \<^verbatim>\<open>(name: $name)\<close> as a variable reference.
\<close>

theorem buildArguments_charlie_brown:
  \<open>buildArguments stringify (Some (JObj [(''name'', JStr ''Charlie Brown'')])) True False
     = Inr ''($name: String!)''
   \<and> buildArguments stringify (Some (JObj [(''name'', JStr ''Charlie Brown'')])) False False
     = Inr ''(name: "Charlie Brown")''
   \<and> buildArguments stringify (Some (JObj [(''name'', JStr ''Charlie Brown'')])) False True
     = Inr ''(name: $name)''\<close>
  by (simp add: buildArguments_def Object_keys_def typeOrValue_def has_type_tag_def get_prop_def)

lemma join_Cons: "join sep (x # xs) = x @ (if xs = [] then [] else sep @ join sep xs)"
  by (cases xs) auto

lemma buildArguments_loop_entries:
  "\<forall>(k, v) \<in> set ps. get_prop args k = v \<Longrightarrow>
   buildArguments_loop stringify signature vars args (map fst ps) (rv, first) =
     (case argument_entries stringify signature vars ps of
        Inl e \<Rightarrow> Inl e
      | Inr es \<Rightarrow>
          Inr (rv @ (if es = [] then [] else (if first then [] else '', '') @ join '', '' (map snd es)),
               first \<and> es = []))"
proof (induction ps arbitrary: rv first)
  case Nil
  then show ?case by simp
next
  case (Cons p ps)
  obtain k v where p: "p = (k, v)" by (cases p)
  from Cons.prems p have g: "get_prop args k = v" by simp
  from Cons.prems have rest: "\<forall>(k, v) \<in> set ps. get_prop args k = v" by simp
  show ?case
    using Cons.IH [OF rest] g
    by (auto simp: p join_Cons split: sum.splits)
qed

lemma get_prop_distinct:
  "distinct (map fst kvs) \<Longrightarrow> (k, v) \<in> set kvs \<Longrightarrow> get_prop (JObj kvs) k = v"
  by (simp add: get_prop_def)

lemma argument_entries_keys:
  "argument_entries stringify signature vars ps = Inr es \<Longrightarrow>
   (k, t) \<in> set es \<Longrightarrow> k \<noteq> ''id'' \<and> (\<exists>v. (k, v) \<in> set ps \<and> \<not> instanceof_Array v)"
proof (induction ps arbitrary: es)
  case Nil
  then show ?case by simp
next
  case (Cons p ps)
  obtain k' v' where p: "p = (k', v')" by (cases p)
  show ?case
    using Cons.prems Cons.IH
    by (fastforce simp: p split: if_splits sum.splits)
qed

lemma argument_entries_text:
  "argument_entries stringify signature vars ps = Inr es \<Longrightarrow>
   (k, t) \<in> set es \<Longrightarrow>
   \<exists>v tv. (k, v) \<in> set ps \<and> typeOrValue stringify signature vars k v = Inr tv
     \<and> t = (if signature then ''$'' else []) @ k @ '': '' @ tv"
proof (induction ps arbitrary: es)
  case Nil
  then show ?case by simp
next
  case (Cons p ps)
  obtain k' v' where p: "p = (k', v')" by (cases p)
  show ?case
    using Cons.prems Cons.IH
    by (fastforce simp: p split: if_splits sum.splits)
qed

lemma argument_entries_names:
  "argument_entries stringify signature vars ps = Inr es \<Longrightarrow>
   map fst es = [k. (k, v) \<leftarrow> ps, \<not> (instanceof_Array v \<or> k = ''id'')]"
proof (induction ps arbitrary: es)
  case Nil
  then show ?case by simp
next
  case (Cons p ps)
  obtain k' v' where p: "p = (k', v')" by (cases p)
  show ?case
    using Cons.prems Cons.IH
    by (auto simp: p split: if_splits sum.splits)
qed

text \<open>
  C9: whatever the flags, a clause that \<^verbatim>\<open>buildArguments\<close> returns for an argument map
  is the parenthesised, comma-separated list of one entry per argument that is neither named
  \<^verbatim>\<open>id\<close> nor array-valued; so it has no entry for \<^verbatim>\<open>id\<close> (a signature never declares
  \<^verbatim>\<open>$id\<close>) and none for an argument whose value is an array.
\<close>

theorem buildArguments_skips_id_and_arrays:
  assumes "distinct (map fst kvs)"
    and "buildArguments stringify (Some (JObj kvs)) signature vars = Inr clause"
  shows "\<exists>es. argument_entries stringify signature vars kvs = Inr es \<and> clause = clause_of es
           \<and> map fst es = [k. (k, v) \<leftarrow> kvs, \<not> (instanceof_Array v \<or> k = ''id'')]
           \<and> (\<forall>(k, t) \<in> set es. \<exists>v tv. (k, v) \<in> set kvs
                 \<and> typeOrValue stringify signature vars k v = Inr tv
                 \<and> t = (if signature then ''$'' else []) @ k @ '': '' @ tv)
           \<and> ''id'' \<notin> fst ` set es
           \<and> (\<forall>k v. (k, v) \<in> set kvs \<and> instanceof_Array v \<longrightarrow> k \<notin> fst ` set es)"
proof -
  have props: "\<forall>(k, v) \<in> set kvs. get_prop (JObj kvs) k = v"
    using assms(1) by (auto simp: get_prop_distinct)
  from assms(2) obtain es where es: "argument_entries stringify signature vars kvs = Inr es"
    and cl: "clause = clause_of es"
    using buildArguments_loop_entries [OF props, of stringify signature vars "[]" True]
    by (auto simp: buildArguments_def Object_keys_def clause_of_def split: sum.splits if_splits)
  have noid: "''id'' \<notin> fst ` set es"
    using argument_entries_keys [OF es] by force
  have noarr: "\<forall>k v. (k, v) \<in> set kvs \<and> instanceof_Array v \<longrightarrow> k \<notin> fst ` set es"
  proof (intro allI impI notI)
    fix k v assume a: "(k, v) \<in> set kvs \<and> instanceof_Array v" and "k \<in> fst ` set es"
    then obtain t where "(k, t) \<in> set es" by force
    from argument_entries_keys [OF es this]
    obtain v' where v': "(k, v') \<in> set kvs" "\<not> instanceof_Array v'"
      by blast
    from assms(1) a v' have "v = v'"
      by (meson eq_key_imp_eq_value)
    with a v' show False by simp
  qed
  have shape: "\<forall>(k, t) \<in> set es. \<exists>v tv. (k, v) \<in> set kvs
                 \<and> typeOrValue stringify signature vars k v = Inr tv
                 \<and> t = (if signature then ''$'' else []) @ k @ '': '' @ tv"
    using argument_entries_text [OF es] by blast
  from es cl argument_entries_names [OF es] shape noid noarr show ?thesis by blast
qed

theorem buildArguments_skips_id_and_arrays_witness:
  "distinct (map fst [(''id'', JNum 1), (''name'', JStr ''X''), (''posts'', JArr [])])
   \<and> buildArguments (\<lambda>v. []) (Some (JObj [(''id'', JNum 1), (''name'', JStr ''X''), (''posts'', JArr [])]))
        True False = Inr ''($name: String!)''
   \<and> (\<exists>es. argument_entries (\<lambda>v. []) True False
               [(''id'', JNum 1), (''name'', JStr ''X''), (''posts'', JArr [])] = Inr es
         \<and> ''($name: String!)'' = clause_of es
         \<and> map fst es = [''name'']
         \<and> ''id'' \<notin> fst ` set es \<and> ''posts'' \<notin> fst ` set es)"
proof -
  let ?kvs = "[(''id'', JNum 1), (''name'', JStr ''X''), (''posts'', JArr [])]"
  have d: "distinct (map fst ?kvs)" by simp
  have b: "buildArguments (\<lambda>v. []) (Some (JObj ?kvs)) True False = Inr ''($name: String!)''"
    by (simp add: buildArguments_def Object_keys_def typeOrValue_def has_type_tag_def get_prop_def)
  from buildArguments_skips_id_and_arrays [OF d b]
  obtain es where es: "argument_entries (\<lambda>v. []) True False ?kvs = Inr es"
    and "''($name: String!)'' = clause_of es"
    and "map fst es = [k. (k, v) \<leftarrow> ?kvs, \<not> (instanceof_Array v \<or> k = ''id'')]"
    and "''id'' \<notin> fst ` set es"
    and arr: "\<forall>k v. (k, v) \<in> set ?kvs \<and> instanceof_Array v \<longrightarrow> k \<notin> fst ` set es"
    by blast
  moreover from arr have "''posts'' \<notin> fst ` set es"
    by (metis instanceof_Array.simps(1) list.set_intros(1,2))
  ultimately show ?thesis using d b by simp
qed

section \<open>Evaluating the example models\<close>

lemma test_models_eq: "test_models = [(''user'', UserModel), (''post'', PostModel)]"
  by (simp add: test_models_def collectModels_def new_Model_def UserModel_def PostModel_def
      simple_singularize_def simple_pluralize_def User_def Post_def)

lemma test_getModel_simps:
  "test_getModel (Inl m) = Inr m"
  "test_getModel (Inr ''users'') = Inr UserModel"
  "test_getModel (Inr ''user'') = Inr UserModel"
  "test_getModel (Inr ''posts'') = Inr PostModel"
  "test_getModel (Inr ''post'') = Inr PostModel"
  by (simp_all add: test_getModel_def VuexORMApollo_getModel_def test_models_eq
      simple_singularize_def)

lemma UserModel_simps:
  "singularName UserModel = ''user''" "pluralName UserModel = ''users''"
  "getQueryFields UserModel = [''id'', ''name'']"
  "getRelations UserModel = [(''posts'', hasMany ''posts'')]"
  by (simp_all add: UserModel_def User_def getQueryFields_def getRelations_def endsWith_def
      attr_def hasMany_def)

lemma PostModel_simps:
  "singularName PostModel = ''post''" "pluralName PostModel = ''posts''"
  "getQueryFields PostModel = [''id'', ''title'', ''content'']"
  "getRelations PostModel = [(''user'', belongsTo ''users'')]"
  by (simp_all add: PostModel_def Post_def getQueryFields_def getRelations_def endsWith_def
      attr_def belongsTo_def)

lemma forum_models_eq:
  "forum_models =
     [(''user'', ForumUserModel), (''post'', ForumPostModel), (''comment'', ForumCommentModel)]"
  by (simp add: forum_models_def collectModels_def new_Model_def ForumUserModel_def
      ForumPostModel_def ForumCommentModel_def simple_singularize_def simple_pluralize_def
      ForumUser_def ForumPost_def ForumComment_def)

lemma forum_getModel_simps:
  "forum_getModel (Inr ''posts'') = Inr ForumPostModel"
  "forum_getModel (Inr ''user'') = Inr ForumUserModel"
  "forum_getModel (Inr ''comments'') = Inr ForumCommentModel"
  by (simp_all add: forum_getModel_def VuexORMApollo_getModel_def forum_models_eq
      simple_singularize_def)

lemma forum_relations:
  "getRelations ForumUserModel = [(''posts'', hasMany ''posts''), (''comments'', hasMany ''comments'')]"
  "getRelations ForumPostModel = [(''user'', belongsTo ''users''), (''comments'', hasMany ''comments'')]"
  "getRelations ForumCommentModel = [(''user'', belongsTo ''users''), (''post'', belongsTo ''posts'')]"
  by (simp_all add: ForumUserModel_def ForumPostModel_def ForumCommentModel_def ForumUser_def
      ForumPost_def ForumComment_def getRelations_def attr_def hasMany_def belongsTo_def)

lemma forum_names:
  "singularName ForumPostModel = ''post''" "pluralName ForumPostModel = ''posts''"
  by (simp_all add: ForumPostModel_def)

lemma field_classes:
  "constructor_name (hasMany e) = ''HasMany''" "constructor_name (belongsTo e) = ''BelongsTo''"
  "constructor_name attr = ''Attr''"
  by (simp_all add: hasMany_def belongsTo_def attr_def)

lemma buildArguments_None: "buildArguments stringify None signature vars = Inr []"
  by (simp add: buildArguments_def)

lemma example_collaborators_simps:
  "inflection_singularize (example_collaborators srv) = simple_singularize"
  "inflection_pluralize (example_collaborators srv) = simple_pluralize"
  "JSON_stringify (example_collaborators srv) = (\<lambda>v. [])"
  "graphql_tag (example_collaborators srv) = Inr"
  "arguments_get (example_collaborators srv) = plain_object_get"
  "queryBuilder_buildMutation (example_collaborators srv)
     = (\<lambda>model id' action. Inr (action @ '' '' @ singularName model))"
  "transport (example_collaborators srv) = srv"
  "store_dispatch (example_collaborators srv)
     = (\<lambda>action payload s. (Inr JUndefined, s @ [(action, payload)]))"
  "getters_find (example_collaborators srv)
     = (\<lambda>s model id'. if id' = JNum 1 then Some snoopy else None)"
  by (simp_all add: example_collaborators_def)

lemma test_getModel_unfold: "VuexORMApollo_getModel simple_singularize test_models = test_getModel"
  by (simp add: test_getModel_def)

lemma tagged_getModel_simps:
  "tagged_getModel (Inr ''users'') = Inr UserModel"
  "tagged_getModel (Inr ''posts'') = Inr TaggedPostModel"
  "tagged_getModel (Inr ''tags'') = Inr TagModel"
  by (simp_all add: tagged_getModel_def VuexORMApollo_getModel_def collectModels_def
      new_Model_def UserModel_def TaggedPostModel_def TagModel_def simple_singularize_def
      simple_pluralize_def User_def TaggedPost_def Tag_def)

lemma tagged_models_simps:
  "pluralName TaggedPostModel = ''posts''"
  "getQueryFields TaggedPostModel = [''id'', ''title'']"
  "getRelations TaggedPostModel = [(''user'', belongsTo ''users''), (''tags'', hasMany ''tags'')]"
  "pluralName TagModel = ''tags''"
  "getQueryFields TagModel = [''id'', ''label'']"
  "getRelations TagModel = []"
  by (simp_all add: TaggedPostModel_def TagModel_def TaggedPost_def Tag_def getQueryFields_def
      getRelations_def endsWith_def attr_def hasMany_def belongsTo_def)

section \<open>Properties of the data transformer\<close>

text \<open>
  C2: the wire payload
  \<^verbatim>\<open>{id: "1", name: "X", posts: {nodes: [{id: "5", title: "T"}]}}\<close> is transformed to
  \<^verbatim>\<open>{id: 1, name: "X", posts: [{id: 5, title: "T"}]}\<close>: the ids become the integers 1 and
  5, the list under \<^verbatim>\<open>nodes\<close> is stored under the pluralized key, the other scalars are
  copied. The key is \<^verbatim>\<open>pluralize('posts')\<close>, which the inflection library leaves as
  \<^verbatim>\<open>posts\<close>.
\<close>

theorem transformIncomingData_wire_example:
  assumes "pluralize ''posts'' = ''posts''"
  shows "transformIncomingData singularize pluralize
           (JObj [(''id'', JStr ''1''), (''name'', JStr ''X''),
                  (''posts'', JObj [(''nodes'', JArr [JObj [(''id'', JStr ''5''), (''title'', JStr ''T'')]])])])
           False
         = Inr (JObj [(''id'', JNum 1), (''name'', JStr ''X''),
                      (''posts'', JArr [JObj [(''id'', JNum 5), (''title'', JStr ''T'')]])])"
  using assms
  by (simp add: get_prop_def parseInt_def parseInt_string_def is_space_def digit_value_def)

theorem transformIncomingData_wire_example_witness:
  "simple_pluralize ''posts'' = ''posts''
   \<and> transformIncomingData simple_singularize simple_pluralize
           (JObj [(''id'', JStr ''1''), (''name'', JStr ''X''),
                  (''posts'', JObj [(''nodes'', JArr [JObj [(''id'', JStr ''5''), (''title'', JStr ''T'')]])])])
           False
         = Inr (JObj [(''id'', JNum 1), (''name'', JStr ''X''),
                      (''posts'', JArr [JObj [(''id'', JNum 5), (''title'', JStr ''T'')]])])"
proof -
  have p: "simple_pluralize ''posts'' = ''posts''"
    by (simp add: simple_pluralize_def)
  from transformIncomingData_wire_example [of simple_pluralize simple_singularize] p show ?thesis
    by blast
qed

section \<open>Properties of the model descriptor\<close>

lemma update_fresh: "k \<notin> fst ` set al \<Longrightarrow> AList.update k v al = al @ [(k, v)]"
  by (induction al) auto

lemma fold_push_filter:
  "fold (\<lambda>(name, field) fs. if P name field then fs @ [name] else fs) xs acc
     = acc @ [name. (name, field) \<leftarrow> xs, P name field]"
  by (induction xs arbitrary: acc) auto

lemma fold_update_filter:
  "distinct (map fst xs) \<Longrightarrow> fst ` set acc \<inter> fst ` set xs = {} \<Longrightarrow>
   fold (\<lambda>(name, field) m. if P name field then AList.update name field m else m) xs acc
     = acc @ filter (\<lambda>(name, field). P name field) xs"
proof (induction xs arbitrary: acc)
  case Nil
  then show ?case by simp
next
  case (Cons x xs)
  obtain k v where x: "x = (k, v)" by (cases x)
  from Cons.prems have fresh: "k \<notin> fst ` set acc" and d: "distinct (map fst xs)"
    and k: "k \<notin> fst ` set xs" and disj: "fst ` set acc \<inter> fst ` set xs = {}"
    by (auto simp: x)
  show ?case
  proof (cases "P k v")
    case True
    have "fst ` set (acc @ [(k, v)]) \<inter> fst ` set xs = {}"
      using disj k by auto
    from Cons.IH [OF d this] True fresh show ?thesis
      by (simp add: x update_fresh)
  next
    case False
    from Cons.IH [OF d disj] False show ?thesis
      by (simp add: x)
  qed
qed

lemma getQueryFields_filter:
  "getQueryFields model =
     [name. (name, field) \<leftarrow> model_fields model,
            constructor_name field = ''Attr'' \<and> \<not> endsWith name ''Id'']"
  unfolding getQueryFields_def using fold_push_filter [where acc = "[]"] by simp

lemma getRelations_filter:
  "distinct (map fst (model_fields model)) \<Longrightarrow>
   getRelations model = filter (\<lambda>(name, field). constructor_name field \<noteq> ''Attr'') (model_fields model)"
  unfolding getRelations_def
  using fold_update_filter [where acc = "[]" and P = "\<lambda>name field. constructor_name field \<noteq> ''Attr''"]
  by simp

lemma distinct_fold_update:
  "distinct (map fst acc) \<Longrightarrow>
   distinct (map fst (fold (\<lambda>(name, f) m. AList.update name f m) xs acc))"
  by (induction xs arbitrary: acc) (auto simp: distinct_update)

lemma new_Model_distinct:
  "distinct (map fst (model_fields (new_Model singularize pluralize base)))"
  by (simp add: new_Model_def distinct_fold_update)

text \<open>
  C6: the query fields of a model are exactly its \<^verbatim>\<open>Attr\<close> fields whose names do not end
  in \<^verbatim>\<open>Id\<close>, in the order of the model; no name ending in \<^verbatim>\<open>Id\<close> is among them, and
  no relation of the model is.
\<close>

theorem getQueryFields_exact:
  assumes "distinct (map fst (model_fields model))"
  shows "getQueryFields model =
           [name. (name, field) \<leftarrow> model_fields model,
                  constructor_name field = ''Attr'' \<and> \<not> endsWith name ''Id'']
         \<and> set (getQueryFields model) =
             {name. \<exists>field. (name, field) \<in> set (model_fields model)
                      \<and> constructor_name field = ''Attr'' \<and> \<not> endsWith name ''Id''}
         \<and> (\<forall>name. endsWith name ''Id'' \<longrightarrow> name \<notin> set (getQueryFields model))
         \<and> (\<forall>name field. (name, field) \<in> set (getRelations model)
               \<longrightarrow> name \<notin> set (getQueryFields model))"
proof -
  have a: "set (getQueryFields model) =
             {name. \<exists>field. (name, field) \<in> set (model_fields model)
                      \<and> constructor_name field = ''Attr'' \<and> \<not> endsWith name ''Id''}"
    by (auto simp: getQueryFields_filter)
  have b: "\<forall>name. endsWith name ''Id'' \<longrightarrow> name \<notin> set (getQueryFields model)"
    using a by blast
  have c: "\<forall>name field. (name, field) \<in> set (getRelations model)
               \<longrightarrow> name \<notin> set (getQueryFields model)"
  proof (intro allI impI notI)
    fix name field
    assume r: "(name, field) \<in> set (getRelations model)" and q: "name \<in> set (getQueryFields model)"
    from r have r': "(name, field) \<in> set (model_fields model)" "constructor_name field \<noteq> ''Attr''"
      by (auto simp: getRelations_filter [OF assms])
    from q a obtain f where f: "(name, f) \<in> set (model_fields model)" "constructor_name f = ''Attr''"
      by blast
    from assms r'(1) f(1) have "field = f"
      by (meson eq_key_imp_eq_value)
    with r'(2) f(2) show False by simp
  qed
  from getQueryFields_filter a b c show ?thesis by blast
qed

lemma ForumPost_fields:
  "model_fields (new_Model simple_singularize simple_pluralize ForumPost) = orm_fields ForumPost"
  by (simp add: new_Model_def ForumPost_def)

theorem getQueryFields_exact_witness:
  "distinct (map fst (model_fields (new_Model simple_singularize simple_pluralize ForumPost)))
   \<and> getQueryFields (new_Model simple_singularize simple_pluralize ForumPost)
       = [''id'', ''content'', ''title'']
   \<and> ''userId'' \<notin> set (getQueryFields (new_Model simple_singularize simple_pluralize ForumPost))
   \<and> ''user'' \<notin> set (getQueryFields (new_Model simple_singularize simple_pluralize ForumPost))"
proof -
  let ?m = "new_Model simple_singularize simple_pluralize ForumPost"
  have d: "distinct (map fst (model_fields ?m))"
    by (rule new_Model_distinct)
  have "getRelations ?m =
          filter (\<lambda>(name, field). constructor_name field \<noteq> ''Attr'') (orm_fields ForumPost)"
    using getRelations_filter [OF d] by (simp only: ForumPost_fields)
  then have r: "(''user'', belongsTo ''users'') \<in> set (getRelations ?m)"
    by (simp add: ForumPost_def attr_def belongsTo_def hasMany_def)
  have e: "endsWith ''userId'' ''Id''"
    by (simp add: endsWith_def)
  from getQueryFields_exact [OF d] r e
  have "getQueryFields ?m =
          [name. (name, field) \<leftarrow> model_fields ?m,
                 constructor_name field = ''Attr'' \<and> \<not> endsWith name ''Id'']"
    and "''userId'' \<notin> set (getQueryFields ?m)" and "''user'' \<notin> set (getQueryFields ?m)"
    by blast+
  then show ?thesis
    using d unfolding ForumPost_fields
    by (simp add: ForumPost_def attr_def belongsTo_def hasMany_def endsWith_def)
qed

section \<open>Properties of the outgoing transformation\<close>

lemma map_of_None_iff_keys: "map_of al k = None \<longleftrightarrow> k \<notin> fst ` set al"
  by (simp add: map_of_eq_None_iff)

lemma set_prop_fresh: "k \<notin> fst ` set kvs \<Longrightarrow> set_prop kvs k v = kvs @ [(k, v)]"
  by (induction kvs) auto

lemma fold_copy_filter:
  "distinct (map fst xs) \<Longrightarrow> fst ` set acc \<inter> fst ` set xs = {} \<Longrightarrow>
   \<forall>(k, v) \<in> set xs. get_prop obj k = v \<Longrightarrow>
   fold (\<lambda>key returnValue.
           let v = get_prop obj key in
           if P key then set_prop returnValue key v else returnValue) (map fst xs) acc
     = acc @ filter (\<lambda>(key, v). P key) xs"
proof (induction xs arbitrary: acc)
  case Nil
  then show ?case by simp
next
  case (Cons x xs)
  obtain k v where x: "x = (k, v)" by (cases x)
  from Cons.prems have fresh: "k \<notin> fst ` set acc" and d: "distinct (map fst xs)"
    and k: "k \<notin> fst ` set xs" and disj: "fst ` set acc \<inter> fst ` set xs = {}"
    and g: "get_prop obj k = v" and rest: "\<forall>(k, v) \<in> set xs. get_prop obj k = v"
    by (auto simp: x)
  show ?case
  proof (cases "P k")
    case True
    have "fst ` set (acc @ [(k, v)]) \<inter> fst ` set xs = {}"
      using disj k by auto
    from Cons.IH [OF d this rest] True fresh g show ?thesis
      by (simp add: x set_prop_fresh)
  next
    case False
    from Cons.IH [OF d disj rest] False show ?thesis
      by (simp add: x)
  qed
qed

text \<open>
  C8: for a record of a registered model, \<^verbatim>\<open>transformOutgoingData\<close> returns the flat
  object of exactly the record's properties that are neither a relation of the model nor
  named \<^verbatim>\<open>id\<close>, each with its value unchanged and in the record's order. Nothing is
  expanded: the values are the record's own.
\<close>

theorem transformOutgoingData_exact:
  assumes "distinct (map fst (props data))"
    and "getModel (Inr (self_entity data)) = Inr model"
  shows "transformOutgoingData getModel data
           = Inr (JObj [(key, v) \<leftarrow> props data.
                          key \<notin> fst ` set (getRelations model) \<and> key \<noteq> ''id''])"
proof -
  have g: "\<forall>(k, v) \<in> set (props data). get_prop (JObj (props data)) k = v"
    using assms(1) by (auto simp: get_prop_distinct)
  show ?thesis
    using assms(2)
      fold_copy_filter [OF assms(1) _ g, of "[]"
        "\<lambda>key. map_of (getRelations model) key = None \<and> key \<noteq> ''id''"]
    by (simp add: transformOutgoingData_def Object_keys_def map_of_None_iff_keys)
qed

theorem transformOutgoingData_exact_witness:
  "distinct (map fst (props snoopy))
   \<and> test_getModel (Inr (self_entity snoopy)) = Inr UserModel
   \<and> transformOutgoingData test_getModel snoopy = Inr (JObj [(''name'', JStr ''Snoopy'')])"
proof -
  have d: "distinct (map fst (props snoopy))"
    by (simp add: snoopy_def)
  have m: "test_getModel (Inr (self_entity snoopy)) = Inr UserModel"
    by (simp add: snoopy_def test_getModel_simps)
  from transformOutgoingData_exact [of snoopy test_getModel UserModel, OF d m]
  have "transformOutgoingData test_getModel snoopy = Inr (JObj [(''name'', JStr ''Snoopy'')])"
    by (simp add: snoopy_def UserModel_simps)
  with d m show ?thesis
    by simp
qed

section \<open>Properties of the query builder\<close>

text \<open>
  Fuel only decides whether a call is followed to its end: a result or an exception
  obtained with some fuel is obtained with any larger fuel.
\<close>

lemma loop_fuel_mono:
  assumes IH: "\<And>m multiple args withVars rootModel name r.
      buildField n getModel stringify m multiple args withVars rootModel name = r \<Longrightarrow>
      r \<noteq> OutOfFuel \<Longrightarrow>
      buildField (n + k) getModel stringify m multiple args withVars rootModel name = r"
  shows "buildRelationsQuery_loop n getModel stringify model rootModel rels = r \<Longrightarrow>
         r \<noteq> OutOfFuel \<Longrightarrow>
         buildRelationsQuery_loop (n + k) getModel stringify model rootModel rels = r"
proof (induction rels arbitrary: r)
  case Nil
  then show ?case by simp
next
  case (Cons p rels)
  obtain name field where p: "p = (name, field)" by (cases p)
  show ?case
  proof (cases "case rootModel of None \<Rightarrow> True
                | Some root \<Rightarrow> name \<noteq> singularName root \<and> name \<noteq> pluralName root")
    case False
    with Cons show ?thesis by (simp add: p)
  next
    case True
    let ?bf = "buildField n getModel stringify (Inr name) (constructor_name field \<noteq> ''BelongsTo'')
                 None False (Some (case rootModel of None \<Rightarrow> model | Some root \<Rightarrow> root)) None"
    from Cons.prems True have nf: "?bf \<noteq> OutOfFuel"
      by (auto simp: p split: result.splits)
    note bf = IH [OF refl nf]
    show ?thesis
    proof (cases ?bf)
      case OutOfFuel
      with nf show ?thesis by simp
    next
      case (Raise e)
      with Cons.prems True bf show ?thesis by (simp add: p)
    next
      case (Return q)
      let ?rest = "buildRelationsQuery_loop n getModel stringify model rootModel rels"
      from Cons.prems True Return have "?rest \<noteq> OutOfFuel"
        by (auto simp: p split: result.splits)
      from Cons.IH [OF refl this] Cons.prems True Return bf show ?thesis
        by (simp add: p)
    qed
  qed
qed

theorem buildField_fuel_mono:
  "buildField n getModel stringify m multiple args withVars rootModel name = r \<Longrightarrow>
   r \<noteq> OutOfFuel \<Longrightarrow>
   buildField (n + k) getModel stringify m multiple args withVars rootModel name = r"
proof (induction n arbitrary: m multiple args withVars rootModel name r)
  case 0
  then show ?case by simp
next
  case (Suc n)
  show ?case
  proof (cases "getModel m")
    case (Inl e)
    with Suc.prems show ?thesis by simp
  next
    case (Inr model)
    show ?thesis
    proof (cases "buildArguments stringify args False withVars")
      case (Inl e)
      with Suc.prems Inr show ?thesis by simp
    next
      case params: (Inr params)
      let ?rq = "buildRelationsQuery_loop n getModel stringify model rootModel (getRelations model)"
      from Suc.prems Inr params have "?rq \<noteq> OutOfFuel"
        by (auto split: result.splits)
      from loop_fuel_mono [of n getModel stringify k, OF Suc.IH refl this]
      show ?thesis
        using Suc.prems Inr params by simp
    qed
  qed
qed

lemma buildField_Return:
  assumes "buildField fuel getModel stringify m multiple args withVars rootModel name = Return s"
  shows "\<exists>model n. fuel = Suc n \<and> getModel m = Inr model
           \<and> buildArguments stringify args False withVars = Inr (sel_params s)
           \<and> buildRelationsQuery n getModel stringify model rootModel = Return (sel_relations s)
           \<and> sel_multiple s = multiple
           \<and> sel_fields s = getQueryFields model
           \<and> sel_name s =
               (case name of
                  None \<Rightarrow> if multiple then pluralName model else singularName model
                | Some n \<Rightarrow>
                    if n \<noteq> [] then n
                    else if multiple then pluralName model else singularName model)"
proof (cases fuel)
  case 0
  with assms show ?thesis by simp
next
  case (Suc n)
  with assms show ?thesis
    by (auto split: sum.splits result.splits)
qed

lemma test_below_user:
  "buildField (Suc n) test_getModel stringify (Inr ''posts'') True None False (Some UserModel) None
     = Return (Selection ''posts'' [] True [''id'', ''title'', ''content''] [])"
  by (simp add: test_getModel_simps PostModel_simps UserModel_simps field_classes
      buildArguments_None)

lemma test_users_field:
  assumes "buildArguments stringify args False False = Inr params"
  shows "buildField (Suc (Suc n)) test_getModel stringify (Inr ''users'') multiple args False None None
     = Return (Selection (if multiple then ''users'' else ''user'') params multiple [''id'', ''name'']
         [Selection ''posts'' [] True [''id'', ''title'', ''content''] []])"
  using assms test_below_user [of n stringify]
  by (simp add: test_getModel_simps PostModel_simps UserModel_simps field_classes)

lemma two: "(2::nat) = Suc (Suc 0)"
  by simp

text \<open>
  C4 fails on the code: the filter is a plain object, on which the call
  \<^verbatim>\<open>args.get('id')\<close> throws. For every filter object, with or without the key \<^verbatim>\<open>id\<close>,
  and every model name, \<^verbatim>\<open>buildQuery\<close> ends with the \<^verbatim>\<open>TypeError\<close>; so for the filter
  \<^verbatim>\<open>{id: 1}\<close> on the registered model of users, no single-record query is built.
\<close>

theorem buildQuery_filter_throws:
  "buildQuery fuel getModel stringify gql plain_object_get modelName (Some (JObj kvs))
     = Raise TypeError
   \<and> buildQuery 2 test_getModel (\<lambda>v. []) (Inr :: string \<Rightarrow> error + string) plain_object_get
        ''users'' (Some (JObj [(''id'', JNum 1)]))
     = Raise TypeError"
  by (simp add: buildQuery_def plain_object_get_def)

text \<open>
  Hence the single-record shape is never produced: a document that \<^verbatim>\<open>buildQuery\<close>
  returns is the parser's result for a root field of the connection shape.
\<close>

lemma plain_object_never_single:
  assumes "buildQuery fuel getModel stringify gql plain_object_get modelName args = Return doc"
  shows "\<exists>field. buildField fuel getModel stringify (Inr modelName) True args False None None
                    = Return field
           \<and> sel_multiple field
           \<and> gql (''{ '' @ print_selection field @ '' }'') = Inr doc"
proof -
  from assms obtain field where
    bf: "buildField fuel getModel stringify (Inr modelName) True args False None None
           = Return field"
    and g: "gql (''{ '' @ print_selection field @ '' }'') = Inr doc"
    by (auto simp: buildQuery_def plain_object_get_def
        split: option.splits if_splits sum.splits result.splits)
  from buildField_Return [OF bf] have "sel_multiple field"
    by auto
  with bf g show ?thesis
    by blast
qed

subsection \<open>Relation cycles\<close>

text \<open>
  At the root, where no root model is given, no relation is skipped: a field that is built
  has one selection per relation of its model.
\<close>

lemma loop_root_length:
  "buildRelationsQuery_loop n getModel stringify model None rels = Return qs \<Longrightarrow>
   length qs = length rels"
proof (induction rels arbitrary: qs)
  case Nil
  then show ?case by simp
next
  case (Cons p rels)
  obtain name field where p: "p = (name, field)" by (cases p)
  from Cons.prems Cons.IH show ?case
    by (auto simp: p split: result.splits)
qed

text \<open>
  Below the root the builder goes on through every relation that does not carry the
  root's name: for users with posts with tags, the tags are selected two levels down.
\<close>

lemma tagged_users_two_levels:
  "buildField (Suc (Suc (Suc n))) tagged_getModel stringify (Inr ''users'') True None False None None
     = Return (Selection ''users'' [] True [''id'', ''name'']
         [Selection ''posts'' [] True [''id'', ''title'']
            [Selection ''tags'' [] True [''id'', ''label''] []]])"
  by (simp add: tagged_getModel_simps UserModel_simps tagged_models_simps buildArguments_None
      field_classes)


lemma forum_below_post_diverges:
  "buildField fuel forum_getModel stringify (Inr ''user'') False None False
     (Some ForumPostModel) None = OutOfFuel
   \<and> buildField fuel forum_getModel stringify (Inr ''comments'') True None False
     (Some ForumPostModel) None = OutOfFuel"
proof (induction fuel)
  case 0
  show ?case by simp
next
  case (Suc n)
  then show ?case
    by (simp add: forum_getModel_simps forum_relations forum_names field_classes
        buildArguments_None)
qed

lemma forum_post_field_never_returns:
  "buildField fuel forum_getModel stringify (Inr ''posts'') multiple args withVars None name
     \<noteq> Return s"
proof (cases fuel)
  case 0
  then show ?thesis by simp
next
  case (Suc n)
  then show ?thesis
    using forum_below_post_diverges [of n stringify]
    by (simp add: forum_getModel_simps forum_relations forum_names field_classes
        split: sum.splits)
qed

text \<open>
  C1 fails on the code: on the models of the newer integration test (users, posts and
  comments, whose relations form cycles that do not pass through the root) the query for
  posts is never built. Below the root \<^verbatim>\<open>post\<close>, the field \<^verbatim>\<open>user\<close> needs the field
  \<^verbatim>\<open>comments\<close>, which needs \<^verbatim>\<open>user\<close> again: only the root's own names are skipped.
  No amount of fuel gives a result without a filter, and none gives a document with one.
\<close>

theorem buildQuery_forum_posts_diverges:
  "buildQuery fuel forum_getModel stringify gql args_get ''posts'' None = OutOfFuel
   \<and> buildQuery fuel forum_getModel stringify gql args_get ''posts'' args \<noteq> Return doc"
proof
  show "buildQuery fuel forum_getModel stringify gql args_get ''posts'' None = OutOfFuel"
  proof (cases fuel)
    case 0
    then show ?thesis by (simp add: buildQuery_def)
  next
    case (Suc n)
    then show ?thesis
      using forum_below_post_diverges [of n stringify]
      by (simp add: buildQuery_def forum_getModel_simps forum_relations forum_names
          field_classes buildArguments_None)
  qed
  show "buildQuery fuel forum_getModel stringify gql args_get ''posts'' args \<noteq> Return doc"
    using forum_post_field_never_returns [of fuel stringify _ args False None]
    by (auto simp: buildQuery_def split: option.splits sum.splits result.splits if_splits)
qed

section \<open>Properties of the actions\<close>

lemma fetch_sent:
  assumes "buildQuery fuel (VuexORMApollo_getModel (inflection_singularize x) models)
             (JSON_stringify x) (graphql_tag x) (arguments_get x) name filterArg = Return q"
  shows "sent (snd (fetch fuel x models name filterArg w))
           = sent w @ [\<lparr>req_kind = Query, req_document = q, req_variables = None\<rparr>]"
  using assms
  by (simp add: fetch_def apolloRequest_def apolloClient_send_def
      split: sum.splits prod.splits)

text \<open>
  With the accessor of plain objects, \<^verbatim>\<open>fetch\<close> with a filter object fails before
  anything is sent.
\<close>

lemma fetch_plain_object_get:
  assumes "arguments_get x = plain_object_get"
  shows "fetch fuel x models name (Some (JObj kvs)) w = (Raise TypeError, w)"
  using assms by (simp add: fetch_def buildQuery_def plain_object_get_def)

text \<open>
  C5 fails on the code. On the models of the older test, \<^verbatim>\<open>fetch\<close> for users with the
  filter \<^verbatim>\<open>{id: 1}\<close> and with the filter \<^verbatim>\<open>{active: true}\<close> ends with the
  \<^verbatim>\<open>TypeError\<close> of \<^verbatim>\<open>args.get\<close>: no request is sent and the store is not touched.
  Without a filter it sends the connection query for \<^verbatim>\<open>users\<close> with no argument, and
  no variables. Whatever the accessor, a query that \<^verbatim>\<open>fetch\<close> sends carries no
  variables (\<open>fetch_sent\<close>), and no clause of \<^verbatim>\<open>buildArguments\<close> has an entry for
  \<^verbatim>\<open>id\<close>.
\<close>

theorem fetch_on_examples:
  "fetch 2 (example_collaborators srv) test_models ''users''
      (Some (JObj [(''id'', JNum 1)])) \<lparr>store = [], sent = []\<rparr>
     = (Raise TypeError, \<lparr>store = [], sent = []\<rparr>)
   \<and> fetch 2 (example_collaborators srv) test_models ''users''
      (Some (JObj [(''active'', JBool True)])) \<lparr>store = [], sent = []\<rparr>
     = (Raise TypeError, \<lparr>store = [], sent = []\<rparr>)
   \<and> sent (snd (fetch 2 (example_collaborators srv) test_models ''users''
                None \<lparr>store = [], sent = []\<rparr>))
     = [\<lparr>req_kind = Query,
         req_document = ''{ '' @ print_selection (Selection ''users'' [] True [''id'', ''name'']
                           [Selection ''posts'' [] True [''id'', ''title'', ''content''] []]) @ '' }'',
         req_variables = None\<rparr>]"
proof -
  let ?x = "example_collaborators srv"
  have g: "arguments_get ?x = plain_object_get"
    by (simp add: example_collaborators_simps)
  have q: "buildQuery 2 (VuexORMApollo_getModel (inflection_singularize ?x) test_models)
             (JSON_stringify ?x) (graphql_tag ?x) (arguments_get ?x) ''users'' None
            = Return (''{ '' @ print_selection (Selection ''users'' [] True [''id'', ''name'']
                           [Selection ''posts'' [] True [''id'', ''title'', ''content''] []]) @ '' }'')"
    unfolding two example_collaborators_simps test_getModel_unfold
    by (simp add: buildQuery_def test_users_field [OF buildArguments_None]
        del: buildField.simps print_selection.simps)
  show ?thesis
    using fetch_plain_object_get [OF g] fetch_sent [OF q]
    by (simp del: print_selection.simps)
qed

lemma mutate_rejected:
  assumes "mutate x models action data model w = (r, w')"
    and "sent w' \<noteq> sent w"
    and "transport x (last (sent w')) = Inl e"
  shows "r = Inl e \<and> w' = w\<lparr>sent := sent w @ [last (sent w')]\<rparr>"
  using assms
  by (auto simp: mutate_def Let_def apolloClient_send_def updateData_def
      split: option.splits sum.splits prod.splits if_splits)

lemma mutate_sends_at_most_once:
  assumes "mutate x models action data model w = (r, w')"
  shows "sent w' = sent w \<or> (\<exists>req. sent w' = sent w @ [req])"
  using assms
  by (auto simp: mutate_def Let_def apolloClient_send_def updateData_def
      split: option.splits sum.splits prod.splits if_splits)

lemma push_rejected:
  assumes "push x models name data w = (r, w')"
    and "sent w' \<noteq> sent w"
    and "transport x (last (sent w')) = Inl e"
  shows "r = Inl e \<and> w' = w\<lparr>sent := sent w @ [last (sent w')]\<rparr>"
proof (cases "VuexORMApollo_getModel (inflection_singularize x) models (Inr name)")
  case (Inl err)
  with assms show ?thesis by (simp add: push_def)
next
  case (Inr model)
  with assms(1) have "mutate x models ''update'' data model w = (r, w')"
    by (simp add: push_def)
  from mutate_rejected [OF this assms(2,3)] show ?thesis .
qed

lemma persist_rejected:
  assumes "persist x models name id' w = (r, w')"
    and "sent w' \<noteq> sent w"
    and "transport x (last (sent w')) = Inl e"
  shows "r = Inl e \<and> w' = w\<lparr>sent := sent w @ [last (sent w')]\<rparr>"
proof (cases "VuexORMApollo_getModel (inflection_singularize x) models (Inr name)")
  case (Inl err)
  with assms show ?thesis by (simp add: persist_def)
next
  case (Inr model)
  obtain r0 w0 where m: "mutate x models ''create'' (getters_find x (store w) model id') model w = (r0, w0)"
    by (cases "mutate x models ''create'' (getters_find x (store w) model id') model w")
  with assms(1) Inr have w0: "w0 = w'"
    by (auto simp: persist_def split: sum.splits)
  from mutate_rejected [OF m] assms(2,3) w0
  have "r0 = Inl e" and "w' = w\<lparr>sent := sent w @ [last (sent w')]\<rparr>"
    by auto
  with assms(1) Inr m show ?thesis
    by (auto simp: persist_def)
qed

lemma world_after_send:
  "w' = w\<lparr>sent := sent w @ [q]\<rparr> \<Longrightarrow> store w' = store w \<and> sent w' = sent w @ [q]"
  by simp

text \<open>
  C7: if the transport rejects the request that \<^verbatim>\<open>mutate\<close>, \<^verbatim>\<open>push\<close> or \<^verbatim>\<open>persist\<close>
  has sent, the action fails with the transport's error unchanged, the store is what it
  was before, and that request is the only one the action has sent.
\<close>

theorem rejected_mutation_leaves_store_untouched:
  assumes "transport x req = Inl e"
  shows "(mutate x models action data model w = (r, w') \<and> sent w' \<noteq> sent w \<and> last (sent w') = req
            \<longrightarrow> r = Inl e \<and> store w' = store w \<and> sent w' = sent w @ [req])
       \<and> (push x models name data w = (r, w') \<and> sent w' \<noteq> sent w \<and> last (sent w') = req
            \<longrightarrow> r = Inl e \<and> store w' = store w \<and> sent w' = sent w @ [req])
       \<and> (persist x models name id' w = (r', w') \<and> sent w' \<noteq> sent w \<and> last (sent w') = req
            \<longrightarrow> r' = Inl e \<and> store w' = store w \<and> sent w' = sent w @ [req])"
proof -
  have a: "mutate x models action data model w = (r, w') \<and> sent w' \<noteq> sent w \<and> last (sent w') = req
            \<longrightarrow> r = Inl e \<and> store w' = store w \<and> sent w' = sent w @ [req]"
  proof
    assume h: "mutate x models action data model w = (r, w') \<and> sent w' \<noteq> sent w \<and> last (sent w') = req"
    with assms have "r = Inl e \<and> w' = w\<lparr>sent := sent w @ [req]\<rparr>"
      using mutate_rejected [of x models action data model w r w' e] by simp
    then show "r = Inl e \<and> store w' = store w \<and> sent w' = sent w @ [req]"
      using world_after_send [of w' w req] by simp
  qed
  have b: "push x models name data w = (r, w') \<and> sent w' \<noteq> sent w \<and> last (sent w') = req
            \<longrightarrow> r = Inl e \<and> store w' = store w \<and> sent w' = sent w @ [req]"
  proof
    assume h: "push x models name data w = (r, w') \<and> sent w' \<noteq> sent w \<and> last (sent w') = req"
    with assms have "r = Inl e \<and> w' = w\<lparr>sent := sent w @ [req]\<rparr>"
      using push_rejected [of x models name data w r w' e] by simp
    then show "r = Inl e \<and> store w' = store w \<and> sent w' = sent w @ [req]"
      using world_after_send [of w' w req] by simp
  qed
  have c: "persist x models name id' w = (r', w') \<and> sent w' \<noteq> sent w \<and> last (sent w') = req
            \<longrightarrow> r' = Inl e \<and> store w' = store w \<and> sent w' = sent w @ [req]"
  proof
    assume h: "persist x models name id' w = (r', w') \<and> sent w' \<noteq> sent w \<and> last (sent w') = req"
    with assms have "r' = Inl e \<and> w' = w\<lparr>sent := sent w @ [req]\<rparr>"
      using persist_rejected [of x models name id' w r' w' e] by simp
    then show "r' = Inl e \<and> store w' = store w \<and> sent w' = sent w @ [req]"
      using world_after_send [of w' w req] by simp
  qed
  from a b c show ?thesis by blast
qed

lemma snoopy_outgoing:
  "transformOutgoingData test_getModel snoopy = Inr (JObj [(''name'', JStr ''Snoopy'')])"
  by (simp add: transformOutgoingData_def snoopy_def test_getModel_simps UserModel_simps
      Object_keys_def get_prop_def)

lemma push_snoopy_rejected:
  "push (example_collaborators (\<lambda>req. Inl network_error)) test_models ''users'' (Some snoopy)
     \<lparr>store = [], sent = []\<rparr>
   = (Inl network_error, \<lparr>store = [], sent = [update_snoopy]\<rparr>)"
  by (simp add: push_def mutate_def example_collaborators_simps test_getModel_unfold
      test_getModel_simps snoopy_outgoing UserModel_simps apolloClient_send_def update_snoopy_def)
    (simp add: snoopy_def get_prop_def Let_def UserModel_simps)

theorem rejected_mutation_leaves_store_untouched_witness:
  "transport (example_collaborators (\<lambda>req. Inl network_error)) update_snoopy = Inl network_error
   \<and> push (example_collaborators (\<lambda>req. Inl network_error)) test_models ''users'' (Some snoopy)
        \<lparr>store = [], sent = []\<rparr>
      = (Inl network_error, \<lparr>store = [], sent = [update_snoopy]\<rparr>)
   \<and> store \<lparr>store = [] :: (string \<times> jsval) list, sent = [update_snoopy]\<rparr>
      = store \<lparr>store = [] :: (string \<times> jsval) list, sent = [] :: string request list\<rparr>"
proof -
  let ?x = "example_collaborators (\<lambda>req. Inl network_error)"
  let ?w = "\<lparr>store = [] :: (string \<times> jsval) list, sent = [] :: string request list\<rparr>"
  let ?w' = "\<lparr>store = [] :: (string \<times> jsval) list, sent = [update_snoopy]\<rparr>"
  have t: "transport ?x update_snoopy = Inl network_error"
    by (simp add: example_collaborators_simps)
  have p: "push ?x test_models ''users'' (Some snoopy) ?w = (Inl network_error, ?w')
           \<and> sent ?w' \<noteq> sent ?w \<and> last (sent ?w') = update_snoopy"
    by (simp add: push_snoopy_rejected)
  from rejected_mutation_leaves_store_untouched [OF t, where models = test_models
      and name = "''users''" and data = "Some snoopy" and w = ?w and r = "Inl network_error"
      and w' = ?w'] p
  have "store ?w' = store ?w"
    by blast
  with t p show ?thesis by blast
qed

lemma digits_of_nat_0: "digits_of_nat 0 = ''0''"
  by code_simp

lemma get_prop_array_0:
  "get_prop (JArr xs) ''0'' = (case xs of [] \<Rightarrow> JUndefined | first # others \<Rightarrow> first)"
  by (cases xs) (simp_all add: get_prop_def upt_rec [of 0] digits_of_nat_0)

lemma updateData_first:
  "updateData x newData id' s =
     store_dispatch x ''update'' (JObj [(''where'', id'), (''data'', first_record newData)]) s"
proof (cases "own_properties newData")
  case Nil
  then show ?thesis
    by (simp add: updateData_def first_record_def Object_keys_def get_prop_def)
next
  case (Cons p rest)
  obtain key v where p: "p = (key, v)" by (cases p)
  have g: "get_prop newData key = v"
    by (simp add: get_prop_def Cons p)
  show ?thesis
  proof (cases v)
    case (JArr xs)
    then show ?thesis
      by (cases xs)
        (simp_all add: updateData_def first_record_def Object_keys_def Cons p g get_prop_array_0)
  qed (simp_all add: updateData_def first_record_def Object_keys_def Cons p g)
qed

lemma first_record_simps:
  "first_record (JObj []) = JUndefined"
  "first_record (JObj ((key, JArr (first # others)) # rest)) = first"
  "first_record (JObj ((key, JArr []) # rest)) = JUndefined"
  "first_record (JObj ((key, JObj kvs) # rest)) = JObj kvs"
  by (simp_all add: first_record_def)

lemma mutate_answered:
  assumes "mutate x models action (Some d) model w = (r, w')"
    and "sent w' \<noteq> sent w"
    and "transport x (last (sent w')) = Inr response"
    and "read_prop response ''data'' = Inr rd"
    and "transformIncomingData (inflection_singularize x) (inflection_pluralize x) rd True
           = Inr newData"
  shows "(r, store w') =
           store_dispatch x ''update''
             (JObj [(''where'', get_prop (JObj (props d)) ''id''),
                    (''data'', first_record newData)]) (store w)
         \<and> sent w' = sent w @ [last (sent w')]"
proof -
  from assms have "(r, store w') = updateData x newData (get_prop (JObj (props d)) ''id'') (store w)
      \<and> sent w' = sent w @ [last (sent w')]"
    by (auto simp: mutate_def Let_def apolloClient_send_def
        split: option.splits sum.splits prod.splits if_splits)
  then show ?thesis
    by (simp add: updateData_first)
qed

lemma mutate_None: "mutate x models action None model w = (Inr JUndefined, w)"
  by (simp add: mutate_def)

lemma push_answered:
  assumes "push x models name (Some d) w = (r, w')"
    and "sent w' \<noteq> sent w"
    and "transport x (last (sent w')) = Inr response"
    and "read_prop response ''data'' = Inr rd"
    and "transformIncomingData (inflection_singularize x) (inflection_pluralize x) rd True
           = Inr newData"
  shows "(r, store w') =
           store_dispatch x ''update''
             (JObj [(''where'', get_prop (JObj (props d)) ''id''),
                    (''data'', first_record newData)]) (store w)
         \<and> sent w' = sent w @ [last (sent w')]"
proof (cases "VuexORMApollo_getModel (inflection_singularize x) models (Inr name)")
  case (Inl err)
  with assms(1,2) show ?thesis by (simp add: push_def)
next
  case (Inr model)
  with assms(1) have "mutate x models ''update'' (Some d) model w = (r, w')"
    by (simp add: push_def)
  from mutate_answered [OF this assms(2-5)] show ?thesis .
qed

lemma persist_answered:
  assumes "persist x models name id' w = (r', w')"
    and "sent w' \<noteq> sent w"
    and "transport x (last (sent w')) = Inr response"
    and "read_prop response ''data'' = Inr rd"
    and "transformIncomingData (inflection_singularize x) (inflection_pluralize x) rd True
           = Inr newData"
  shows "\<exists>model d r.
           VuexORMApollo_getModel (inflection_singularize x) models (Inr name) = Inr model
         \<and> getters_find x (store w) model id' = Some d
         \<and> (r, store w') =
             store_dispatch x ''update''
               (JObj [(''where'', get_prop (JObj (props d)) ''id''),
                      (''data'', first_record newData)]) (store w)
         \<and> sent w' = sent w @ [last (sent w')]
         \<and> r' = (case r of Inl e \<Rightarrow> Inl e
                          | Inr v \<Rightarrow> Inr (getters_find x (store w') model id'))"
proof (cases "VuexORMApollo_getModel (inflection_singularize x) models (Inr name)")
  case (Inl err)
  with assms(1,2) show ?thesis by (simp add: persist_def)
next
  case (Inr model)
  obtain r w0 where m: "mutate x models ''create'' (getters_find x (store w) model id') model w = (r, w0)"
    by (cases "mutate x models ''create'' (getters_find x (store w) model id') model w")
  with assms(1) Inr have w0: "w0 = w'"
    and r': "r' = (case r of Inl e \<Rightarrow> Inl e | Inr v \<Rightarrow> Inr (getters_find x (store w') model id'))"
    by (auto simp: persist_def split: sum.splits)
  from m w0 assms(2) obtain d where d: "getters_find x (store w) model id' = Some d"
    by (cases "getters_find x (store w) model id'") (auto simp: mutate_None)
  from m w0 d have "mutate x models ''create'' (Some d) model w = (r, w')"
    by simp
  from mutate_answered [OF this assms(2-5)] Inr d r' show ?thesis
    by blast
qed

text \<open>
  C10: when the transport answers the request that \<^verbatim>\<open>mutate\<close>, \<^verbatim>\<open>push\<close> or
  \<^verbatim>\<open>persist\<close> has sent and the response is transformed, the action ends with one
  \<^verbatim>\<open>dispatch('update', ...)\<close> on the store as it was, and that request is the only one
  it has sent. In the update, \<^verbatim>\<open>where\<close> is the id of the record that was sent (for
  \<^verbatim>\<open>persist\<close>, the record found in the store before the request), and \<^verbatim>\<open>data\<close> is
  the value under the first key of the transformed response or, if that is an array, its
  first element. The other keys and elements do not reach the store.
\<close>

theorem answered_mutation_updates_first_record:
  assumes "transport x req = Inr response"
    and "read_prop response ''data'' = Inr rd"
    and "transformIncomingData (inflection_singularize x) (inflection_pluralize x) rd True
           = Inr newData"
  shows "(mutate x models action (Some d) model w = (r, w')
            \<and> sent w' \<noteq> sent w \<and> last (sent w') = req
          \<longrightarrow> (r, store w') =
                store_dispatch x ''update''
                  (JObj [(''where'', get_prop (JObj (props d)) ''id''),
                         (''data'', first_record newData)]) (store w)
              \<and> sent w' = sent w @ [req])
       \<and> (push x models name (Some d) w = (r, w')
            \<and> sent w' \<noteq> sent w \<and> last (sent w') = req
          \<longrightarrow> (r, store w') =
                store_dispatch x ''update''
                  (JObj [(''where'', get_prop (JObj (props d)) ''id''),
                         (''data'', first_record newData)]) (store w)
              \<and> sent w' = sent w @ [req])
       \<and> (persist x models name id' w = (r', w')
            \<and> sent w' \<noteq> sent w \<and> last (sent w') = req
          \<longrightarrow> (\<exists>found found_model r0.
                 VuexORMApollo_getModel (inflection_singularize x) models (Inr name)
                   = Inr found_model
               \<and> getters_find x (store w) found_model id' = Some found
               \<and> (r0, store w') =
                   store_dispatch x ''update''
                     (JObj [(''where'', get_prop (JObj (props found)) ''id''),
                            (''data'', first_record newData)]) (store w)
               \<and> sent w' = sent w @ [req]
               \<and> r' = (case r0 of Inl e \<Rightarrow> Inl e
                                 | Inr v \<Rightarrow> Inr (getters_find x (store w') found_model id'))))"
proof -
  have a: "mutate x models action (Some d) model w = (r, w')
            \<and> sent w' \<noteq> sent w \<and> last (sent w') = req
          \<longrightarrow> (r, store w') =
                store_dispatch x ''update''
                  (JObj [(''where'', get_prop (JObj (props d)) ''id''),
                         (''data'', first_record newData)]) (store w)
              \<and> sent w' = sent w @ [req]"
    using assms mutate_answered [of x models action d model w r w' response rd newData]
    by auto
  have b: "push x models name (Some d) w = (r, w')
            \<and> sent w' \<noteq> sent w \<and> last (sent w') = req
          \<longrightarrow> (r, store w') =
                store_dispatch x ''update''
                  (JObj [(''where'', get_prop (JObj (props d)) ''id''),
                         (''data'', first_record newData)]) (store w)
              \<and> sent w' = sent w @ [req]"
    using assms push_answered [of x models name d w r w' response rd newData]
    by auto
  have c: "persist x models name id' w = (r', w')
            \<and> sent w' \<noteq> sent w \<and> last (sent w') = req
          \<longrightarrow> (\<exists>found found_model r0.
                 VuexORMApollo_getModel (inflection_singularize x) models (Inr name)
                   = Inr found_model
               \<and> getters_find x (store w) found_model id' = Some found
               \<and> (r0, store w') =
                   store_dispatch x ''update''
                     (JObj [(''where'', get_prop (JObj (props found)) ''id''),
                            (''data'', first_record newData)]) (store w)
               \<and> sent w' = sent w @ [req]
               \<and> r' = (case r0 of Inl e \<Rightarrow> Inl e
                                 | Inr v \<Rightarrow> Inr (getters_find x (store w') found_model id')))"
  proof
    assume h: "persist x models name id' w = (r', w')
            \<and> sent w' \<noteq> sent w \<and> last (sent w') = req"
    with assms have t: "transport x (last (sent w')) = Inr response"
      by simp
    from h persist_answered [of x models name id' w r' w' response rd newData, OF _ _ t assms(2,3)]
    show "\<exists>found found_model r0.
                 VuexORMApollo_getModel (inflection_singularize x) models (Inr name)
                   = Inr found_model
               \<and> getters_find x (store w) found_model id' = Some found
               \<and> (r0, store w') =
                   store_dispatch x ''update''
                     (JObj [(''where'', get_prop (JObj (props found)) ''id''),
                            (''data'', first_record newData)]) (store w)
               \<and> sent w' = sent w @ [req]
               \<and> r' = (case r0 of Inl e \<Rightarrow> Inl e
                                 | Inr v \<Rightarrow> Inr (getters_find x (store w') found_model id'))"
      by blast
  qed
  from a b c show ?thesis by blast
qed

lemma two_users_transformed:
  "transformIncomingData simple_singularize simple_pluralize
     (JObj [(''updateUsers'',
                   JObj [(''nodes'', JArr [JObj [(''id'', JStr ''1''), (''name'', JStr ''Snoopy'')],
                                           JObj [(''id'', JStr ''2''), (''name'', JStr ''Woodstock'')]])]),
                  (''viewer'', JObj [(''name'', JStr ''Lucy'')])]) True
   = Inr (JObj [(''updateUsers'', JArr [JObj [(''id'', JNum 1), (''name'', JStr ''Snoopy'')],
                                         JObj [(''id'', JNum 2), (''name'', JStr ''Woodstock'')]]),
                (''viewer'', JObj [(''name'', JStr ''Lucy'')])])"
  by (simp add: get_prop_def simple_singularize_def simple_pluralize_def parseInt_def
      parseInt_string_def is_space_def digit_value_def)

lemma get_prop_JObj:
  "get_prop (JObj []) key = JUndefined"
  "get_prop (JObj ((k, v) # kvs)) key = (if k = key then v else get_prop (JObj kvs) key)"
  by (simp_all add: get_prop_def)

lemma snoopy_id: "get_prop (JObj (props snoopy)) ''id'' = JNum 1"
  by (simp add: snoopy_def get_prop_JObj)

lemma push_snoopy_answered:
  "push (example_collaborators (\<lambda>req. Inr two_users_response)) test_models ''users'' (Some snoopy)
     \<lparr>store = [], sent = []\<rparr>
   = (Inr JUndefined,
      \<lparr>store = [(''update'', JObj [(''where'', JNum 1),
                                   (''data'', JObj [(''id'', JNum 1), (''name'', JStr ''Snoopy'')])])],
       sent = [update_snoopy]\<rparr>)"
  by (simp add: push_def mutate_def example_collaborators_simps test_getModel_unfold
      test_getModel_simps snoopy_outgoing snoopy_id UserModel_simps apolloClient_send_def
      update_snoopy_def Let_def two_users_response_def read_prop_def get_prop_JObj
      two_users_transformed updateData_first first_record_simps
      del: transformIncomingData.simps)

lemma persist_snoopy_answered:
  "persist (example_collaborators (\<lambda>req. Inr two_users_response)) test_models ''users'' (JNum 1)
     \<lparr>store = [], sent = []\<rparr>
   = (Inr (Some snoopy),
      \<lparr>store = [(''update'', JObj [(''where'', JNum 1),
                                   (''data'', JObj [(''id'', JNum 1), (''name'', JStr ''Snoopy'')])])],
       sent = [create_snoopy]\<rparr>)"
  by (simp add: persist_def mutate_def example_collaborators_simps test_getModel_unfold
      test_getModel_simps snoopy_outgoing snoopy_id UserModel_simps apolloClient_send_def
      create_snoopy_def Let_def two_users_response_def read_prop_def get_prop_JObj
      two_users_transformed updateData_first first_record_simps
      del: transformIncomingData.simps)

theorem answered_mutation_updates_first_record_witness:
  "transport (example_collaborators (\<lambda>req. Inr two_users_response)) update_snoopy
       = Inr two_users_response
   \<and> push (example_collaborators (\<lambda>req. Inr two_users_response)) test_models ''users''
       (Some snoopy) \<lparr>store = [], sent = []\<rparr>
     = (Inr JUndefined,
        \<lparr>store = [(''update'', JObj [(''where'', JNum 1),
                      (''data'', JObj [(''id'', JNum 1), (''name'', JStr ''Snoopy'')])])],
         sent = [update_snoopy]\<rparr>)
   \<and> persist (example_collaborators (\<lambda>req. Inr two_users_response)) test_models ''users''
       (JNum 1) \<lparr>store = [], sent = []\<rparr>
     = (Inr (Some snoopy),
        \<lparr>store = [(''update'', JObj [(''where'', JNum 1),
                      (''data'', JObj [(''id'', JNum 1), (''name'', JStr ''Snoopy'')])])],
         sent = [create_snoopy]\<rparr>)
   \<and> (Inr JUndefined,
       [(''update'', JObj [(''where'', JNum 1),
                           (''data'', JObj [(''id'', JNum 1), (''name'', JStr ''Snoopy'')])])])
       = store_dispatch (example_collaborators (\<lambda>req. Inr two_users_response)) ''update''
           (JObj [(''where'', JNum 1),
                  (''data'', JObj [(''id'', JNum 1), (''name'', JStr ''Snoopy'')])]) []"
proof -
  let ?x = "example_collaborators (\<lambda>req. Inr two_users_response)"
  let ?w = "\<lparr>store = [] :: (string \<times> jsval) list, sent = [] :: string request list\<rparr>"
  let ?s = "[(''update'', JObj [(''where'', JNum 1),
                      (''data'', JObj [(''id'', JNum 1), (''name'', JStr ''Snoopy'')])])]"
  let ?w' = "\<lparr>store = ?s, sent = [update_snoopy]\<rparr>"
  let ?rd = "JObj [(''updateUsers'',
                   JObj [(''nodes'', JArr [JObj [(''id'', JStr ''1''), (''name'', JStr ''Snoopy'')],
                                           JObj [(''id'', JStr ''2''), (''name'', JStr ''Woodstock'')]])]),
                  (''viewer'', JObj [(''name'', JStr ''Lucy'')])]"
  let ?new = "JObj [(''updateUsers'', JArr [JObj [(''id'', JNum 1), (''name'', JStr ''Snoopy'')],
                                         JObj [(''id'', JNum 2), (''name'', JStr ''Woodstock'')]]),
                (''viewer'', JObj [(''name'', JStr ''Lucy'')])]"
  have t: "transport ?x update_snoopy = Inr two_users_response"
    by (simp add: example_collaborators_simps)
  have r: "read_prop two_users_response ''data'' = Inr ?rd"
    by (simp add: two_users_response_def read_prop_def get_prop_JObj)
  have n: "transformIncomingData (inflection_singularize ?x) (inflection_pluralize ?x) ?rd True
             = Inr ?new"
    by (simp only: example_collaborators_simps two_users_transformed)
  have p: "push ?x test_models ''users'' (Some snoopy) ?w = (Inr JUndefined, ?w')
           \<and> sent ?w' \<noteq> sent ?w \<and> last (sent ?w') = update_snoopy"
    by (simp add: push_snoopy_answered)
  from answered_mutation_updates_first_record [OF t r n, where models = test_models
      and name = "''users''" and d = snoopy and w = ?w and r = "Inr JUndefined" and w' = ?w'] p
  have "(Inr JUndefined, store ?w') = store_dispatch ?x ''update''
           (JObj [(''where'', get_prop (JObj (props snoopy)) ''id''),
                  (''data'', first_record ?new)]) (store ?w)"
    by blast
  then have "(Inr JUndefined, ?s) = store_dispatch ?x ''update''
           (JObj [(''where'', JNum 1),
                  (''data'', JObj [(''id'', JNum 1), (''name'', JStr ''Snoopy'')])]) []"
    by (simp add: snoopy_id first_record_simps)
  with t p persist_snoopy_answered show ?thesis
    by simp
qed

end
